theory Spec2Isabelle
  imports Complex_Main
begin

section \<open>The GoogleEarthView control of cgxp\<close>

text \<open>
  A shallow embedding of \<^verbatim>\<open>OpenLayers.Control.GoogleEarthView\<close>
  (\<^verbatim>\<open>openlayers.addins/GoogleEarthView/lib/OpenLayers/Control/GoogleEarthView.js\<close>).
  The control is a record of its properties; every method takes the control and returns
  the updated control, or \<open>Inl TypeError\<close> where the JavaScript dereferences
  \<^verbatim>\<open>null\<close>.  The Google Earth plugin, the map, the vector layer and the drag
  control are records of what the control can observe of them.  The geometric library
  (projection transforms, viewport conversions, geodesic distance and heading) is a
  record of functions passed to every method; these functions are total, so what the
  library does outside its domain (a layer that is on no map, a distance that does not
  converge) is not modelled.  A \<open>TypeError\<close> ends the call: the assignments made
  before it are not kept.  The method \<^verbatim>\<open>destroy\<close> is not modelled.
\<close>

subsection \<open>Numbers\<close>

text \<open>
  Coordinates, angles and distances are reals.  The range that \<^verbatim>\<open>onDrag\<close> and
  \<^verbatim>\<open>onStart\<close> compute is the result of double arithmetic and is modelled as such:
  a \<open>number\<close> is a real, an infinity or \<^verbatim>\<open>NaN\<close>, and the product and the
  quotient of two numbers round the exact result to the nearest double, ties to even
  (\<open>fl\<close>): 53 bits from the exponent of the value, exponents from -1022, a result
  of magnitude \<open>2 ^ 1024\<close> or more being an infinity.  Zero has no sign in the model,
  so a division by zero takes the sign of the dividend.  \<^verbatim>\<open>Math.sin\<close> is a function
  of the library, since the language leaves its precision to the engine.
\<close>

datatype number = Num real | PosInfinity | NegInfinity | NaN

definition pow2 :: "int \<Rightarrow> real" where
  "pow2 k = (if 0 \<le> k then 2 ^ nat k else 1 / 2 ^ nat (- k))"

definition exponent :: "real \<Rightarrow> int" where
  "exponent x = max \<lfloor>log 2 \<bar>x\<bar>\<rfloor> (- 1022)"

definition round_half_even :: "real \<Rightarrow> int" where
  "round_half_even q =
     (let f = \<lfloor>q\<rfloor>; r = q - of_int f
      in if r < 1 / 2 then f else if 1 / 2 < r then f + 1 else if even f then f else f + 1)"

definition fl :: "real \<Rightarrow> number" where
  "fl x =
     (if x = 0 then Num 0
      else
        let u = pow2 (exponent x - 52);
            y = of_int (round_half_even (x / u)) * u
        in if pow2 1024 \<le> y then PosInfinity
           else if y \<le> - pow2 1024 then NegInfinity
           else Num y)"

definition inf_of_sign :: "real \<Rightarrow> number" where
  "inf_of_sign x = (if x = 0 then NaN else if 0 < x then PosInfinity else NegInfinity)"

definition js_times :: "number \<Rightarrow> number \<Rightarrow> number" where
  "js_times a b =
     (case a of
        NaN \<Rightarrow> NaN
      | Num x \<Rightarrow>
          (case b of
             NaN \<Rightarrow> NaN
           | Num y \<Rightarrow> fl (x * y)
           | PosInfinity \<Rightarrow> inf_of_sign x
           | NegInfinity \<Rightarrow> inf_of_sign (- x))
      | PosInfinity \<Rightarrow>
          (case b of
             NaN \<Rightarrow> NaN
           | Num y \<Rightarrow> inf_of_sign y
           | PosInfinity \<Rightarrow> PosInfinity
           | NegInfinity \<Rightarrow> NegInfinity)
      | NegInfinity \<Rightarrow>
          (case b of
             NaN \<Rightarrow> NaN
           | Num y \<Rightarrow> inf_of_sign (- y)
           | PosInfinity \<Rightarrow> NegInfinity
           | NegInfinity \<Rightarrow> PosInfinity))"

definition js_divide :: "number \<Rightarrow> number \<Rightarrow> number" where
  "js_divide a b =
     (case a of
        NaN \<Rightarrow> NaN
      | Num x \<Rightarrow>
          (case b of
             NaN \<Rightarrow> NaN
           | Num y \<Rightarrow> if y = 0 then inf_of_sign x else fl (x / y)
           | PosInfinity \<Rightarrow> Num 0
           | NegInfinity \<Rightarrow> Num 0)
      | PosInfinity \<Rightarrow>
          (case b of
             Num y \<Rightarrow> if 0 \<le> y then PosInfinity else NegInfinity
           | _ \<Rightarrow> NaN)
      | NegInfinity \<Rightarrow>
          (case b of
             Num y \<Rightarrow> if 0 \<le> y then NegInfinity else PosInfinity
           | _ \<Rightarrow> NaN))"

text \<open>\<^verbatim>\<open>Math.PI\<close>, the double nearest to \<open>\<pi>\<close>.\<close>

definition Math_PI :: real where
  "Math_PI = 884279719003555 / 281474976710656"




text \<open>\<^verbatim>\<open>Math.atan2(y, x)\<close> on the reals (signed zeros are not modelled).\<close>

definition atan2 :: "real \<Rightarrow> real \<Rightarrow> real" where
  "atan2 b a =
     (if 0 < a then arctan (b / a)
      else if a < 0 then (if 0 \<le> b then arctan (b / a) + pi else arctan (b / a) - pi)
      else if 0 < b then pi / 2
      else if b < 0 then - (pi / 2)
      else 0)"

subsection \<open>Data\<close>

datatype error = TypeError

record LonLat =
  lon :: real
  lat :: real

record Pixel =
  pixel_x :: real
  pixel_y :: real

text \<open>
  Geometry objects have an identity: every \<^verbatim>\<open>new OpenLayers.Geometry.Point\<close>,
  \<^verbatim>\<open>new OpenLayers.Geometry.LineString\<close> and \<^verbatim>\<open>clone()\<close> draws the next
  object identifier from the counter \<open>nextOid\<close> of the control, so that assigning a
  new object with the same coordinates to a feature is visible in the model.
\<close>

record Point =
  oid :: nat
  point_x :: real
  point_y :: real

record LineString =
  line_oid :: nat
  components :: "Point list"

record Style =
  rotation :: "real option"

record 'g Feature =
  geometry :: "'g option"
  style :: Style

datatype feature_ref = CameraFeature | LineFeature | LookAtFeature

text \<open>
  The vector layer: its feature list, and the log of the calls the control made to
  \<^verbatim>\<open>removeAllFeatures\<close> and \<^verbatim>\<open>addFeatures\<close>.
\<close>

datatype layer_call = RemoveAllFeatures | AddFeatures "feature_ref list"

record VectorLayer =
  layer_name :: string
  visibility :: bool
  layer_displayInLayerSwitcher :: bool
  features :: "feature_ref list"
  calls :: "layer_call list"

definition removeAllFeatures :: "VectorLayer \<Rightarrow> VectorLayer" where
  "removeAllFeatures l = l\<lparr>features := [], calls := calls l @ [RemoveAllFeatures]\<rparr>"

definition addFeatures :: "feature_ref list \<Rightarrow> VectorLayer \<Rightarrow> VectorLayer" where
  "addFeatures fs l = l\<lparr>features := features l @ fs, calls := calls l @ [AddFeatures fs]\<rparr>"

record DragFeature =
  drag_active :: bool

datatype map_layer = GoogleEarthViewLayer | OtherLayer string

datatype map_control = GoogleEarthViewDragFeature | OtherControl string

record OLMap =
  projection :: string
  layers :: "map_layer list"
  controls :: "map_control list"

definition addLayer :: "OLMap \<Rightarrow> OLMap" where
  "addLayer m = m\<lparr>layers := layers m @ [GoogleEarthViewLayer]\<rparr>"

definition removeLayer :: "OLMap \<Rightarrow> OLMap" where
  "removeLayer m = m\<lparr>layers := removeAll GoogleEarthViewLayer (layers m)\<rparr>"

definition addControl :: "OLMap \<Rightarrow> OLMap" where
  "addControl m = m\<lparr>controls := controls m @ [GoogleEarthViewDragFeature]\<rparr>"

definition removeControl :: "OLMap \<Rightarrow> OLMap" where
  "removeControl m = m\<lparr>controls := removeAll GoogleEarthViewDragFeature (controls m)\<rparr>"

text \<open>
  The Google Earth plugin, as far as the control can observe it: the two readings of the
  current view (\<^verbatim>\<open>getView().copyAsCamera\<close>, \<^verbatim>\<open>getView().copyAsLookAt\<close>), the
  arguments of the calls to \<^verbatim>\<open>setAbstractView\<close> and \<^verbatim>\<open>setFlyToSpeed\<close> in the
  order they were made, the number of registered \<^verbatim>\<open>frameend\<close> listeners, and the
  two constants the control reads.  The range of a look-at view is the value given to
  \<^verbatim>\<open>setRange\<close>, which is \<open>None\<close> when the control hands over \<^verbatim>\<open>null\<close>.
\<close>

record KmlCamera =
  camera_longitude :: real
  camera_latitude :: real
  camera_tilt :: real

record KmlLookAt =
  longitude :: real
  latitude :: real
  heading :: real
  tilt :: real
  range' :: "number option"

record GEPlugin =
  view_camera :: KmlCamera
  view_lookAt :: KmlLookAt
  setAbstractView_calls :: "KmlLookAt list"
  setFlyToSpeed_calls :: "real list"
  frameend_listeners :: nat
  ALTITUDE_RELATIVE_TO_GROUND :: nat
  SPEED_TELEPORT :: real

record Library =
  Projection_transform :: "string \<Rightarrow> string \<Rightarrow> real \<times> real \<Rightarrow> real \<times> real"
  getLonLatFromViewPortPx :: "Pixel \<Rightarrow> LonLat"
  getViewPortPxFromLonLat :: "LonLat \<Rightarrow> Pixel"
  distVincenty :: "LonLat \<Rightarrow> LonLat \<Rightarrow> real"
  computeHeading :: "LonLat \<Rightarrow> LonLat \<Rightarrow> real"
  Math_sin :: "number \<Rightarrow> number"

text \<open>
  \<^verbatim>\<open>OpenLayers.Projection.transform(point, source, dest)\<close> and
  \<^verbatim>\<open>geometry.transform(source, dest)\<close> overwrite the coordinates of the point
  they are given; its identity stays.
\<close>

definition transform :: "Library \<Rightarrow> Point \<Rightarrow> string \<Rightarrow> string \<Rightarrow> Point" where
  "transform lib p source dest =
     (let c = Projection_transform lib source dest (point_x p, point_y p)
      in p\<lparr>point_x := fst c, point_y := snd c\<rparr>)"

record GoogleEarthView =
  active :: bool
  map' :: "OLMap option"
  gePlugin :: "GEPlugin option"
  visible :: bool
  displayInLayerSwitcher :: bool
  layerName :: string
  cameraStyle :: Style
  lineStyle :: Style
  lookAtStyle :: Style
  altitudeMode :: nat
  layer :: "VectorLayer option"
  featuresAdded :: bool
  dragFeatureControl :: "DragFeature option"
  cameraFeature :: "Point Feature option"
  lineFeature :: "LineString Feature option"
  lookAtFeature :: "Point Feature option"
  gimballLock :: bool
  gimballLockThreshold :: real
  geProjection :: string
  frameendCallback :: bool
  gePluginFlyToSpeedSet :: bool
  initialLookAt :: "LonLat option"
  initialRange :: "number option"
  nextOid :: nat

subsection \<open>The base class\<close>

text \<open>
  Modelled from the spec: \<^verbatim>\<open>OpenLayers.Control.prototype.activate\<close> and
  \<^verbatim>\<open>OpenLayers.Control.prototype.deactivate\<close>, the methods of the base class
  \<^verbatim>\<open>OpenLayers.Control\<close> that the control calls first in \<^verbatim>\<open>activate\<close>
  and \<^verbatim>\<open>deactivate\<close>; the base class is not part of the sources.  The spec
  (4.1, 8) has activation of an active control and deactivation of an inactive control
  as no-ops that report failure; otherwise the base method flips the \<open>active\<close>
  flag and reports success.
\<close>

definition Control_activate :: "GoogleEarthView \<Rightarrow> bool \<times> GoogleEarthView" where
  "Control_activate s = (if active s then (False, s) else (True, s\<lparr>active := True\<rparr>))"

definition Control_deactivate :: "GoogleEarthView \<Rightarrow> bool \<times> GoogleEarthView" where
  "Control_deactivate s = (if active s then (True, s\<lparr>active := False\<rparr>) else (False, s))"

subsection \<open>The methods of the control\<close>

definition connectGEPlugin :: "GoogleEarthView \<Rightarrow> error + GoogleEarthView" where
  "connectGEPlugin s =
     (case gePlugin s of
        None \<Rightarrow> Inl TypeError
      | Some ge \<Rightarrow>
          Inr (s\<lparr>frameendCallback := True,
                 gePlugin := Some (ge\<lparr>frameend_listeners := frameend_listeners ge + 1\<rparr>),
                 gePluginFlyToSpeedSet := False\<rparr>))"

definition disconnectGEPlugin :: "GoogleEarthView \<Rightarrow> error + GoogleEarthView" where
  "disconnectGEPlugin s =
     (if frameendCallback s then
        (case gePlugin s of
           None \<Rightarrow> Inl TypeError
         | Some ge \<Rightarrow>
             Inr (s\<lparr>gePlugin := Some (ge\<lparr>frameend_listeners := frameend_listeners ge - 1\<rparr>),
                    frameendCallback := False\<rparr>))
      else Inr s)"

text \<open>
  The condition of the \<^verbatim>\<open>if\<close> in \<^verbatim>\<open>update\<close>, with the short-circuit
  evaluation of \<^verbatim>\<open>||\<close>: the geometries of the features are read only when the
  features were added and the gimbal lock flag did not change.
\<close>

definition update_needed ::
  "Point \<Rightarrow> Point \<Rightarrow> bool \<Rightarrow> GoogleEarthView \<Rightarrow> error + bool" where
  "update_needed newCameraGeometry newLookAtGeometry prevGimballLock s =
     (if \<not> featuresAdded s then Inr True
      else if gimballLock s \<noteq> prevGimballLock then Inr True
      else
        (case cameraFeature s of
           None \<Rightarrow> Inl TypeError
         | Some cf \<Rightarrow>
        (case geometry cf of
           None \<Rightarrow> Inl TypeError
         | Some cg \<Rightarrow>
        if point_x newCameraGeometry \<noteq> point_x cg then Inr True
        else if point_y newCameraGeometry \<noteq> point_y cg then Inr True
        else
        (case lookAtFeature s of
           None \<Rightarrow> Inl TypeError
         | Some lf \<Rightarrow>
        (case geometry lf of
           None \<Rightarrow> Inl TypeError
         | Some lg \<Rightarrow>
        if point_x newLookAtGeometry \<noteq> point_x lg then Inr True
        else Inr (point_y newLookAtGeometry \<noteq> point_y lg))))))"

definition camera_rotation :: "Library \<Rightarrow> KmlCamera \<Rightarrow> KmlLookAt \<Rightarrow> real" where
  "camera_rotation lib geCamera geLookAt =
     (let cameraLonLat = \<lparr>lon = camera_longitude geCamera, lat = camera_latitude geCamera\<rparr>;
          cameraPixel = getViewPortPxFromLonLat lib cameraLonLat;
          lookAtLonLat = \<lparr>lon = longitude geLookAt, lat = latitude geLookAt\<rparr>;
          lookAtPixel = getViewPortPxFromLonLat lib lookAtLonLat
      in 90 + 180 * atan2 (pixel_y lookAtPixel - pixel_y cameraPixel)
                          (pixel_x lookAtPixel - pixel_x cameraPixel) / pi)"

text \<open>
  The body of the \<^verbatim>\<open>if\<close> in \<^verbatim>\<open>update\<close>: the features take the new
  geometries and are added to the layer again, and the camera marker is rotated.
\<close>

definition update_features ::
  "Library \<Rightarrow> KmlCamera \<Rightarrow> KmlLookAt \<Rightarrow> Point \<Rightarrow> Point \<Rightarrow> GoogleEarthView
   \<Rightarrow> error + GoogleEarthView" where
  "update_features lib geCamera geLookAt newCameraGeometry newLookAtGeometry s =
     (case layer s of
        None \<Rightarrow> Inl TypeError
      | Some l \<Rightarrow>
     (case cameraFeature s of
        None \<Rightarrow> Inl TypeError
      | Some cf \<Rightarrow>
     (case lookAtFeature s of
        None \<Rightarrow> Inl TypeError
      | Some lf \<Rightarrow>
     (case lineFeature s of
        None \<Rightarrow> Inl TypeError
      | Some lnf \<Rightarrow>
     let l1 = (if featuresAdded s then removeAllFeatures l else l);
         cf1 = cf\<lparr>geometry := Some newCameraGeometry\<rparr>;
         lf1 = lf\<lparr>geometry := Some newLookAtGeometry\<rparr>;
         ln1 = lnf\<lparr>geometry :=
                  Some \<lparr>line_oid = nextOid s,
                        components = [newCameraGeometry, newLookAtGeometry]\<rparr>\<rparr>;
         s1 = s\<lparr>nextOid := nextOid s + 1, lookAtFeature := Some lf1,
                lineFeature := Some ln1\<rparr>
     in
     if gimballLock s1 then
       Inr (s1\<lparr>layer := Some (addFeatures [CameraFeature] l1),
              cameraFeature :=
                Some (cf1\<lparr>style := (style cf1)\<lparr>rotation := Some (heading geLookAt)\<rparr>\<rparr>),
              featuresAdded := True\<rparr>)
     else
       Inr (s1\<lparr>layer := Some (addFeatures [LineFeature, LookAtFeature, CameraFeature] l1),
              cameraFeature :=
                Some (cf1\<lparr>style :=
                  (style cf1)\<lparr>rotation := Some (camera_rotation lib geCamera geLookAt)\<rparr>\<rparr>),
              featuresAdded := True\<rparr>)))))"

text \<open>The two points that \<^verbatim>\<open>update\<close> computes from the view of the plugin.\<close>

definition newCameraGeometry :: "Library \<Rightarrow> GoogleEarthView \<Rightarrow> OLMap \<Rightarrow> GEPlugin \<Rightarrow> Point" where
  "newCameraGeometry lib s m ge =
     transform lib \<lparr>oid = nextOid s, point_x = camera_longitude (view_camera ge),
                     point_y = camera_latitude (view_camera ge)\<rparr>
       (geProjection s) (projection m)"

definition newLookAtGeometry :: "Library \<Rightarrow> GoogleEarthView \<Rightarrow> OLMap \<Rightarrow> GEPlugin \<Rightarrow> Point" where
  "newLookAtGeometry lib s m ge =
     transform lib \<lparr>oid = nextOid s + 1, point_x = longitude (view_lookAt ge),
                     point_y = latitude (view_lookAt ge)\<rparr>
       (geProjection s) (projection m)"

text \<open>
  The control after the assignment to \<^verbatim>\<open>this.gimballLock\<close> in
  \<^verbatim>\<open>update\<close>; the two new points have taken their identifiers.
\<close>

definition set_gimballLock :: "GEPlugin \<Rightarrow> GoogleEarthView \<Rightarrow> GoogleEarthView" where
  "set_gimballLock ge s =
     s\<lparr>nextOid := nextOid s + 2,
       gimballLock := camera_tilt (view_camera ge) < gimballLockThreshold s\<rparr>"

definition update :: "Library \<Rightarrow> GoogleEarthView \<Rightarrow> error + GoogleEarthView" where
  "update lib s =
     (case map' s of
        None \<Rightarrow> Inl TypeError
      | Some m \<Rightarrow>
     (case gePlugin s of
        None \<Rightarrow> Inl TypeError
      | Some ge \<Rightarrow>
     let geCamera = view_camera ge;
         geLookAt = view_lookAt ge;
         prevGimballLock = gimballLock s;
         s1 = set_gimballLock ge s
     in
     (case update_needed (newCameraGeometry lib s m ge) (newLookAtGeometry lib s m ge)
             prevGimballLock s1 of
        Inl e \<Rightarrow> Inl e
      | Inr needed \<Rightarrow>
          if needed
          then update_features lib geCamera geLookAt
                 (newCameraGeometry lib s m ge) (newLookAtGeometry lib s m ge) s1
          else Inr s1)))"

definition setGEPlugin ::
  "Library \<Rightarrow> GEPlugin option \<Rightarrow> GoogleEarthView \<Rightarrow> error + GoogleEarthView" where
  "setGEPlugin lib handle s =
     (case disconnectGEPlugin s of
        Inl e \<Rightarrow> Inl e
      | Inr s1 \<Rightarrow>
     let s2 = s1\<lparr>gePlugin := handle\<rparr> in
     (case handle of
        None \<Rightarrow> Inr s2
      | Some ge \<Rightarrow>
     let s3 = s2\<lparr>altitudeMode := ALTITUDE_RELATIVE_TO_GROUND ge\<rparr> in
     if active s3 then
       (case connectGEPlugin s3 of
          Inl e \<Rightarrow> Inl e
        | Inr s4 \<Rightarrow> update lib s4)
     else Inr s3))"

text \<open>
  The options of the constructor that the model covers; an absent option leaves the
  default of the prototype.
\<close>

record Options =
  opt_gePlugin :: "GEPlugin option"
  opt_layerName :: "string option"
  opt_cameraStyle :: "Style option"
  opt_gimballLockThreshold :: "real option"

definition prototype :: GoogleEarthView where
  "prototype =
     \<lparr>active = False, map' = None, gePlugin = None, visible = True,
      displayInLayerSwitcher = False, layerName = [],
      cameraStyle = \<lparr>rotation = None\<rparr>, lineStyle = \<lparr>rotation = None\<rparr>,
      lookAtStyle = \<lparr>rotation = None\<rparr>, altitudeMode = 0, layer = None,
      featuresAdded = False, dragFeatureControl = None, cameraFeature = None,
      lineFeature = None, lookAtFeature = None, gimballLock = False,
      gimballLockThreshold = 1, geProjection = [], frameendCallback = False,
      gePluginFlyToSpeedSet = False, initialLookAt = None, initialRange = None,
      nextOid = 0\<rparr>"

definition initialize :: "Library \<Rightarrow> Options \<Rightarrow> error + GoogleEarthView" where
  "initialize lib options =
     (let s = prototype\<lparr>
            gePlugin := opt_gePlugin options,
            layerName :=
              (case opt_layerName options of
                 None \<Rightarrow> ''Google Earth view control''
               | Some n \<Rightarrow> if n = [] then ''Google Earth view control'' else n),
            cameraStyle :=
              (case opt_cameraStyle options of
                 None \<Rightarrow> \<lparr>rotation = Some 0\<rparr>
               | Some st \<Rightarrow> st),
            gimballLockThreshold :=
              (case opt_gimballLockThreshold options of None \<Rightarrow> 1 | Some t \<Rightarrow> t),
            geProjection := ''EPSG:4326''\<rparr>
      in if gePlugin s \<noteq> None then setGEPlugin lib (gePlugin s) s else Inr s)"

definition draw :: "GoogleEarthView \<Rightarrow> GoogleEarthView" where
  "draw s =
     (let s1 = (if cameraFeature s = None
                then s\<lparr>cameraFeature := Some \<lparr>geometry = None, style = cameraStyle s\<rparr>\<rparr>
                else s);
          s2 = (if lineFeature s1 = None
                then s1\<lparr>lineFeature := Some \<lparr>geometry = None, style = lineStyle s1\<rparr>\<rparr>
                else s1);
          s3 = (if lookAtFeature s2 = None
                then s2\<lparr>lookAtFeature := Some \<lparr>geometry = None, style = lookAtStyle s2\<rparr>\<rparr>
                else s2);
          s4 = (if layer s3 = None
                then s3\<lparr>layer :=
                       Some \<lparr>layer_name = layerName s3, visibility = visible s3,
                             layer_displayInLayerSwitcher = displayInLayerSwitcher s3,
                             features = [], calls = []\<rparr>\<rparr>
                else s3)
      in if dragFeatureControl s4 = None
         then s4\<lparr>dragFeatureControl := Some \<lparr>drag_active = False\<rparr>\<rparr>
         else s4)"

definition activate :: "Library \<Rightarrow> GoogleEarthView \<Rightarrow> error + bool \<times> GoogleEarthView" where
  "activate lib s =
     (let (ok, s1) = Control_activate s in
      if ok \<and> gePlugin s1 \<noteq> None then
        (case map' s1 of
           None \<Rightarrow> Inl TypeError
         | Some m \<Rightarrow>
        (case layer s1 of
           None \<Rightarrow> Inl TypeError
         | Some l \<Rightarrow>
        (case dragFeatureControl s1 of
           None \<Rightarrow> Inl TypeError
         | Some d \<Rightarrow>
        let s2 = s1\<lparr>map' := Some (addControl (addLayer m)),
                    dragFeatureControl := Some (d\<lparr>drag_active := True\<rparr>)\<rparr>
        in
        (case connectGEPlugin s2 of
           Inl e \<Rightarrow> Inl e
         | Inr s3 \<Rightarrow>
        (case update lib s3 of
           Inl e \<Rightarrow> Inl e
         | Inr s4 \<Rightarrow> Inr (True, s4))))))
      else Inr (False, s1))"

definition deactivate :: "GoogleEarthView \<Rightarrow> error + bool \<times> GoogleEarthView" where
  "deactivate s =
     (let (ok, s1) = Control_deactivate s in
      if ok then
        (case disconnectGEPlugin s1 of
           Inl e \<Rightarrow> Inl e
         | Inr s2 \<Rightarrow>
        (case dragFeatureControl s2 of
           None \<Rightarrow> Inl TypeError
         | Some d \<Rightarrow>
        (case map' s2 of
           None \<Rightarrow> Inl TypeError
         | Some m \<Rightarrow>
        Inr (True, s2\<lparr>dragFeatureControl := Some (d\<lparr>drag_active := False\<rparr>),
                      map' := Some (removeLayer (removeControl m))\<rparr>))))
      else Inr (False, s1))"

text \<open>
  The geographic position of a viewport pixel, as the first five statements of
  \<^verbatim>\<open>onDrag\<close> compute it; the temporary point takes the object identifier \<open>n\<close>.
\<close>

definition pixel_lonLat :: "Library \<Rightarrow> string \<Rightarrow> string \<Rightarrow> nat \<Rightarrow> Pixel \<Rightarrow> LonLat" where
  "pixel_lonLat lib mapProjection geProj n pixel =
     (let lonLat = getLonLatFromViewPortPx lib pixel;
          point = transform lib \<lparr>oid = n, point_x = lon lonLat, point_y = lat lonLat\<rparr>
                    mapProjection geProj
      in \<lparr>lon = point_x point, lat = point_y point\<rparr>)"

definition setAbstractView :: "KmlLookAt \<Rightarrow> GEPlugin \<Rightarrow> GEPlugin" where
  "setAbstractView v ge = ge\<lparr>setAbstractView_calls := setAbstractView_calls ge @ [v]\<rparr>"

definition onDrag ::
  "Library \<Rightarrow> feature_ref \<Rightarrow> Pixel \<Rightarrow> GoogleEarthView \<Rightarrow> error + GoogleEarthView" where
  "onDrag lib feature pixel s =
     (case map' s of
        None \<Rightarrow> Inl TypeError
      | Some m \<Rightarrow>
     (case layer s of
        None \<Rightarrow> Inl TypeError
      | Some l \<Rightarrow>
     let lonLat = pixel_lonLat lib (projection m) (geProjection s) (nextOid s) pixel;
         s1 = s\<lparr>nextOid := nextOid s + 1\<rparr>
     in
     (case gePlugin s1 of
        None \<Rightarrow> Inl TypeError
      | Some ge \<Rightarrow>
     let geLookAt = view_lookAt ge in
     if feature = CameraFeature \<and> \<not> gimballLock s1 then
       (case initialLookAt s1 of
          None \<Rightarrow> Inl TypeError
        | Some a \<Rightarrow>
       let g1 = geLookAt\<lparr>longitude := lon a, latitude := lat a,
                         heading := - computeHeading lib lonLat a\<rparr>;
           g2 = g1\<lparr>range' :=
                   Some (js_divide
                     (js_times (Num 1000) (Num (distVincenty lib lonLat a)))
                     (Math_sin lib
                        (js_divide (js_times (Num Math_PI) (Num (tilt g1))) (Num 180))))\<rparr>
       in Inr (s1\<lparr>gePlugin := Some (setAbstractView g2 ge)\<rparr>))
     else if feature = LookAtFeature \<or> (feature = CameraFeature \<and> gimballLock s1) then
       (let g1 = geLookAt\<lparr>range' := initialRange s1, longitude := lon lonLat,
                          latitude := lat lonLat\<rparr>
        in Inr (s1\<lparr>gePlugin := Some (setAbstractView g1 ge)\<rparr>))
     else Inr (s1\<lparr>gePlugin := Some (setAbstractView geLookAt ge)\<rparr>))))"

definition onStart ::
  "Library \<Rightarrow> feature_ref \<Rightarrow> GoogleEarthView \<Rightarrow> error + GoogleEarthView" where
  "onStart lib feature s =
     (case map' s of
        None \<Rightarrow> Inl TypeError
      | Some m \<Rightarrow>
     (case lookAtFeature s of
        None \<Rightarrow> Inl TypeError
      | Some lf \<Rightarrow>
     (case geometry lf of
        None \<Rightarrow> Inl TypeError
      | Some lg \<Rightarrow>
     let mapProjection = projection m;
         lookAt = transform lib (lg\<lparr>oid := nextOid s\<rparr>) mapProjection (geProjection s);
         a = \<lparr>lon = point_x lookAt, lat = point_y lookAt\<rparr>
     in
     (case cameraFeature s of
        None \<Rightarrow> Inl TypeError
      | Some cf \<Rightarrow>
     (case geometry cf of
        None \<Rightarrow> Inl TypeError
      | Some cg \<Rightarrow>
     let camera = transform lib (cg\<lparr>oid := nextOid s + 1\<rparr>) mapProjection (geProjection s);
         cameraLonLat = \<lparr>lon = point_x camera, lat = point_y camera\<rparr>
     in
     (case gePlugin s of
        None \<Rightarrow> Inl TypeError
      | Some ge \<Rightarrow>
     let geLookAt = view_lookAt ge;
         s1 = s\<lparr>nextOid := nextOid s + 2,
                initialLookAt := Some a,
                initialRange :=
                  Some (js_divide
                    (js_times (Num 1000) (Num (distVincenty lib cameraLonLat a)))
                    (Math_sin lib
                       (js_divide (js_times (Num Math_PI) (Num (tilt geLookAt)))
                          (Num 180))))\<rparr>
     in
     if \<not> gePluginFlyToSpeedSet s1 then
       Inr (s1\<lparr>gePlugin :=
                  Some (ge\<lparr>setFlyToSpeed_calls :=
                             setFlyToSpeed_calls ge @ [SPEED_TELEPORT ge]\<rparr>),
              gePluginFlyToSpeedSet := True\<rparr>)
     else Inr s1))))))"


subsection \<open>The control as a transition system\<close>

text \<open>
  The methods of the control as operations, and the controls that can arise: from the
  constructor, by the methods, and by what the surroundings do to the control between
  two calls: the map takes the control (\<^verbatim>\<open>setMap\<close>), the plugin changes its
  view, and the drag control moves the geometry of the marker being dragged.
\<close>

datatype operation =
  Draw | SetGEPlugin "GEPlugin option" | Activate | Deactivate
  | OnDrag feature_ref Pixel | Update | OnStart feature_ref

fun perform :: "Library \<Rightarrow> operation \<Rightarrow> GoogleEarthView \<Rightarrow> error + GoogleEarthView" where
  "perform lib Draw s = Inr (draw s)"
| "perform lib (SetGEPlugin handle) s = setGEPlugin lib handle s"
| "perform lib Activate s = (case activate lib s of Inl e \<Rightarrow> Inl e | Inr r \<Rightarrow> Inr (snd r))"
| "perform lib Deactivate s = (case deactivate s of Inl e \<Rightarrow> Inl e | Inr r \<Rightarrow> Inr (snd r))"
| "perform lib (OnDrag feature pixel) s = onDrag lib feature pixel s"
| "perform lib Update s = update lib s"
| "perform lib (OnStart feature) s = onStart lib feature s"

inductive reachable :: "Options \<Rightarrow> GoogleEarthView \<Rightarrow> bool" for options :: Options where
  constructed: "initialize lib options = Inr s \<Longrightarrow> reachable options s"
| performed: "reachable options s \<Longrightarrow> perform lib opn s = Inr s' \<Longrightarrow> reachable options s'"
| setMap: "reachable options s \<Longrightarrow> reachable options (s\<lparr>map' := Some m\<rparr>)"
| viewchange:
    "reachable options s \<Longrightarrow> gePlugin s = Some ge \<Longrightarrow>
     reachable options (s\<lparr>gePlugin := Some (ge\<lparr>view_camera := c, view_lookAt := v\<rparr>)\<rparr>)"
| moveCamera:
    "reachable options s \<Longrightarrow> cameraFeature s = Some cf \<Longrightarrow> geometry cf = Some g \<Longrightarrow>
     reachable options
       (s\<lparr>cameraFeature := Some (cf\<lparr>geometry := Some (g\<lparr>point_x := a, point_y := b\<rparr>)\<rparr>)\<rparr>)"
| moveLookAt:
    "reachable options s \<Longrightarrow> lookAtFeature s = Some lf \<Longrightarrow> geometry lf = Some g \<Longrightarrow>
     reachable options
       (s\<lparr>lookAtFeature := Some (lf\<lparr>geometry := Some (g\<lparr>point_x := a, point_y := b\<rparr>)\<rparr>)\<rparr>)"

text \<open>The features that \<^verbatim>\<open>update\<close> adds to the layer, by the gimbal lock flag.\<close>

definition shown_features :: "bool \<Rightarrow> feature_ref list" where
  "shown_features lock =
     (if lock then [CameraFeature] else [LineFeature, LookAtFeature, CameraFeature])"

definition layer_inv :: "GoogleEarthView \<Rightarrow> bool" where
  "layer_inv s =
     (case layer s of
        None \<Rightarrow> \<not> featuresAdded s
      | Some l \<Rightarrow> features l = (if featuresAdded s then shown_features (gimballLock s) else []))"

definition threshold_of :: "Options \<Rightarrow> real" where
  "threshold_of options = (case opt_gimballLockThreshold options of None \<Rightarrow> 1 | Some t \<Rightarrow> t)"

definition control_inv :: "Options \<Rightarrow> GoogleEarthView \<Rightarrow> bool" where
  "control_inv options s = (layer_inv s \<and> gimballLockThreshold s = threshold_of options)"


text \<open>
  The control is ready to be updated when the map has taken it, \<^verbatim>\<open>draw\<close> has
  created the layer and the features, and features that were added have a geometry.
\<close>

definition drawn :: "GoogleEarthView \<Rightarrow> bool" where
  "drawn s =
     (map' s \<noteq> None \<and> layer s \<noteq> None \<and> lineFeature s \<noteq> None \<and>
      cameraFeature s \<noteq> None \<and> lookAtFeature s \<noteq> None \<and>
      (featuresAdded s \<longrightarrow>
         Option.bind (cameraFeature s) geometry \<noteq> None \<and>
         Option.bind (lookAtFeature s) geometry \<noteq> None))"

text \<open>
  The operations that call \<^verbatim>\<open>connectGEPlugin\<close>: \<^verbatim>\<open>activate\<close> on an inactive
  control with a plugin, and \<^verbatim>\<open>setGEPlugin\<close> with a plugin on an active control.
\<close>

fun connects :: "operation \<Rightarrow> GoogleEarthView \<Rightarrow> bool" where
  "connects Activate s = (\<not> active s \<and> gePlugin s \<noteq> None)"
| "connects (SetGEPlugin handle) s = (active s \<and> handle \<noteq> None)"
| "connects Draw s = False"
| "connects Deactivate s = False"
| "connects (OnDrag feature pixel) s = False"
| "connects Update s = False"
| "connects (OnStart feature) s = False"

text \<open>The abstract view that the control pushed to the plugin last.\<close>

definition last_view :: "GoogleEarthView \<Rightarrow> KmlLookAt option" where
  "last_view s =
     (case gePlugin s of
        None \<Rightarrow> None
      | Some ge \<Rightarrow>
          if setAbstractView_calls ge = [] then None
          else Some (last (setAbstractView_calls ge)))"

text \<open>
  A run of operations, and the runs within one connection: none of their operations
  connects the control to a plugin or replaces the plugin.  The calls to
  \<^verbatim>\<open>setFlyToSpeed\<close> that the plugin of the control has received.
\<close>

fun run :: "Library \<Rightarrow> operation list \<Rightarrow> GoogleEarthView \<Rightarrow> error + GoogleEarthView" where
  "run lib [] s = Inr s"
| "run lib (opn # opns) s =
     (case perform lib opn s of Inl e \<Rightarrow> Inl e | Inr s1 \<Rightarrow> run lib opns s1)"

fun replaces_plugin :: "operation \<Rightarrow> bool" where
  "replaces_plugin (SetGEPlugin handle) = True"
| "replaces_plugin Draw = False"
| "replaces_plugin Activate = False"
| "replaces_plugin Deactivate = False"
| "replaces_plugin (OnDrag feature pixel) = False"
| "replaces_plugin Update = False"
| "replaces_plugin (OnStart feature) = False"

fun same_connection :: "Library \<Rightarrow> operation list \<Rightarrow> GoogleEarthView \<Rightarrow> bool" where
  "same_connection lib [] s = True"
| "same_connection lib (opn # opns) s =
     (\<not> connects opn s \<and> \<not> replaces_plugin opn \<and>
      (case perform lib opn s of Inl e \<Rightarrow> True | Inr s1 \<Rightarrow> same_connection lib opns s1))"

fun starts_drag :: "operation \<Rightarrow> bool" where
  "starts_drag (OnStart feature) = True"
| "starts_drag Draw = False"
| "starts_drag (SetGEPlugin handle) = False"
| "starts_drag Activate = False"
| "starts_drag Deactivate = False"
| "starts_drag (OnDrag feature pixel) = False"
| "starts_drag Update = False"

definition speed_calls :: "GoogleEarthView \<Rightarrow> real list" where
  "speed_calls s = (case gePlugin s of None \<Rightarrow> [] | Some ge \<Rightarrow> setFlyToSpeed_calls ge)"

subsection \<open>An example session\<close>

text \<open>
  A library for a map whose projection stretches the geographic coordinates (ten units
  to a degree of longitude, twenty to a degree of latitude) and whose viewport shows two
  map units per pixel with the vertical axis pointing down; the distance of two points is
  measured along the axes, and the sine of the engine is given at the two angles the
  session needs, the quarter turn and zero.  A session of the control on that map:
  constructed, drawn, given a plugin, activated, looking straight down, turned, dragged,
  deactivated and activated again.
\<close>

definition ex_lib :: Library where
  "ex_lib =
     \<lparr>Projection_transform =
        (\<lambda>source dest c.
           if source = ''EPSG:4326'' \<and> dest = ''EPSG:900913'' then (10 * fst c, 20 * snd c)
           else if source = ''EPSG:900913'' \<and> dest = ''EPSG:4326''
           then (fst c / 10, snd c / 20)
           else c),
      getLonLatFromViewPortPx = (\<lambda>p. \<lparr>lon = 2 * pixel_x p, lat = - (2 * pixel_y p)\<rparr>),
      getViewPortPxFromLonLat = (\<lambda>a. \<lparr>pixel_x = lon a / 2, pixel_y = - (lat a / 2)\<rparr>),
      distVincenty = (\<lambda>a b. \<bar>lon a - lon b\<bar> + \<bar>lat a - lat b\<bar>),
      computeHeading = (\<lambda>a b. 90 * (lon b - lon a)),
      Math_sin =
        (\<lambda>x. if x = Num (884279719003555 / 562949953421312) then Num 1
             else if x = Num 0 then Num 0 else NaN)\<rparr>"

definition ex_options :: Options where
  "ex_options =
     \<lparr>opt_gePlugin = None, opt_layerName = None, opt_cameraStyle = None,
      opt_gimballLockThreshold = None\<rparr>"

definition ex_map :: OLMap where
  "ex_map = \<lparr>projection = ''EPSG:900913'', layers = [], controls = []\<rparr>"

definition ex_plugin :: GEPlugin where
  "ex_plugin =
     \<lparr>view_camera = \<lparr>camera_longitude = 7, camera_latitude = 47, camera_tilt = 90\<rparr>,
      view_lookAt =
        \<lparr>longitude = 8, latitude = 47, heading = 90, tilt = 90, range' = Some (Num 1000)\<rparr>,
      setAbstractView_calls = [], setFlyToSpeed_calls = [], frameend_listeners = 0,
      ALTITUDE_RELATIVE_TO_GROUND = 1, SPEED_TELEPORT = 5\<rparr>"

definition ex_constructed :: GoogleEarthView where
  "ex_constructed =
     prototype\<lparr>layerName := ''Google Earth view control'',
               cameraStyle := \<lparr>rotation = Some 0\<rparr>, geProjection := ''EPSG:4326''\<rparr>"

definition ex_drawn :: GoogleEarthView where
  "ex_drawn =
     ex_constructed\<lparr>
       map' := Some ex_map,
       layer := Some \<lparr>layer_name = ''Google Earth view control'', visibility = True,
                      layer_displayInLayerSwitcher = False, features = [], calls = []\<rparr>,
       dragFeatureControl := Some \<lparr>drag_active = False\<rparr>,
       cameraFeature := Some \<lparr>geometry = None, style = \<lparr>rotation = Some 0\<rparr>\<rparr>,
       lineFeature := Some \<lparr>geometry = None, style = \<lparr>rotation = None\<rparr>\<rparr>,
       lookAtFeature := Some \<lparr>geometry = None, style = \<lparr>rotation = None\<rparr>\<rparr>\<rparr>"

definition ex_ready :: GoogleEarthView where
  "ex_ready = ex_drawn\<lparr>gePlugin := Some ex_plugin, altitudeMode := 1\<rparr>"

definition ex_active_map :: OLMap where
  "ex_active_map =
     ex_map\<lparr>layers := [GoogleEarthViewLayer], controls := [GoogleEarthViewDragFeature]\<rparr>"

definition ex_active :: GoogleEarthView where
  "ex_active =
     ex_ready\<lparr>
       active := True,
       map' := Some ex_active_map,
       gePlugin := Some (ex_plugin\<lparr>frameend_listeners := 1\<rparr>),
       layer := Some \<lparr>layer_name = ''Google Earth view control'', visibility = True,
                      layer_displayInLayerSwitcher = False,
                      features = [LineFeature, LookAtFeature, CameraFeature],
                      calls = [AddFeatures [LineFeature, LookAtFeature, CameraFeature]]\<rparr>,
       featuresAdded := True,
       dragFeatureControl := Some \<lparr>drag_active = True\<rparr>,
       cameraFeature := Some \<lparr>geometry = Some \<lparr>oid = 0, point_x = 70, point_y = 940\<rparr>,
                              style = \<lparr>rotation = Some 90\<rparr>\<rparr>,
       lineFeature := Some \<lparr>geometry = Some \<lparr>line_oid = 2, components =
                               [\<lparr>oid = 0, point_x = 70, point_y = 940\<rparr>,
                                \<lparr>oid = 1, point_x = 80, point_y = 940\<rparr>]\<rparr>,
                            style = \<lparr>rotation = None\<rparr>\<rparr>,
       lookAtFeature := Some \<lparr>geometry = Some \<lparr>oid = 1, point_x = 80, point_y = 940\<rparr>,
                              style = \<lparr>rotation = None\<rparr>\<rparr>,
       frameendCallback := True,
       nextOid := 3\<rparr>"

text \<open>The plugin now looks straight down at the camera position, heading 45.\<close>

definition ex_down_plugin :: GEPlugin where
  "ex_down_plugin =
     ex_plugin\<lparr>
       view_camera := \<lparr>camera_longitude = 7, camera_latitude = 47, camera_tilt = 0\<rparr>,
       view_lookAt :=
         \<lparr>longitude = 7, latitude = 47, heading = 45, tilt = 0, range' = Some (Num 1000)\<rparr>,
       frameend_listeners := 1\<rparr>"

definition ex_down :: GoogleEarthView where
  "ex_down = ex_active\<lparr>gePlugin := Some ex_down_plugin\<rparr>"

definition ex_locked :: GoogleEarthView where
  "ex_locked =
     ex_down\<lparr>
       gimballLock := True,
       layer := Some \<lparr>layer_name = ''Google Earth view control'', visibility = True,
                      layer_displayInLayerSwitcher = False,
                      features = [CameraFeature],
                      calls = [AddFeatures [LineFeature, LookAtFeature, CameraFeature],
                               RemoveAllFeatures, AddFeatures [CameraFeature]]\<rparr>,
       cameraFeature := Some \<lparr>geometry = Some \<lparr>oid = 3, point_x = 70, point_y = 940\<rparr>,
                              style = \<lparr>rotation = Some 45\<rparr>\<rparr>,
       lineFeature := Some \<lparr>geometry = Some \<lparr>line_oid = 5, components =
                               [\<lparr>oid = 3, point_x = 70, point_y = 940\<rparr>,
                                \<lparr>oid = 4, point_x = 70, point_y = 940\<rparr>]\<rparr>,
                            style = \<lparr>rotation = None\<rparr>\<rparr>,
       lookAtFeature := Some \<lparr>geometry = Some \<lparr>oid = 4, point_x = 70, point_y = 940\<rparr>,
                              style = \<lparr>rotation = None\<rparr>\<rparr>,
       nextOid := 6\<rparr>"

text \<open>The plugin turns the view to heading 120 without moving it.\<close>

definition ex_turned_plugin :: GEPlugin where
  "ex_turned_plugin =
     ex_down_plugin\<lparr>
       view_lookAt :=
         \<lparr>longitude = 7, latitude = 47, heading = 120, tilt = 0,
          range' = Some (Num 1000)\<rparr>\<rparr>"

definition ex_turned :: GoogleEarthView where
  "ex_turned = ex_locked\<lparr>gePlugin := Some ex_turned_plugin\<rparr>"

text \<open>
  On the active control the plugin looks from the camera position to the north-east;
  the markers are drawn.
\<close>

definition ex_diagonal_plugin :: GEPlugin where
  "ex_diagonal_plugin =
     ex_plugin\<lparr>
       view_lookAt :=
         \<lparr>longitude = 8, latitude = 48, heading = 45, tilt = 90, range' = Some (Num 1000)\<rparr>,
       frameend_listeners := 1\<rparr>"

definition ex_diagonal :: GoogleEarthView where
  "ex_diagonal = ex_active\<lparr>gePlugin := Some ex_diagonal_plugin\<rparr>"

definition ex_diagonal_drawn :: GoogleEarthView where
  "ex_diagonal_drawn =
     ex_diagonal\<lparr>
       layer := Some \<lparr>layer_name = ''Google Earth view control'', visibility = True,
                      layer_displayInLayerSwitcher = False,
                      features = [LineFeature, LookAtFeature, CameraFeature],
                      calls = [AddFeatures [LineFeature, LookAtFeature, CameraFeature],
                               RemoveAllFeatures,
                               AddFeatures [LineFeature, LookAtFeature, CameraFeature]]\<rparr>,
       cameraFeature := Some \<lparr>geometry = Some \<lparr>oid = 3, point_x = 70, point_y = 940\<rparr>,
                              style = \<lparr>rotation = Some 45\<rparr>\<rparr>,
       lineFeature := Some \<lparr>geometry = Some \<lparr>line_oid = 5, components =
                               [\<lparr>oid = 3, point_x = 70, point_y = 940\<rparr>,
                                \<lparr>oid = 4, point_x = 80, point_y = 960\<rparr>]\<rparr>,
                            style = \<lparr>rotation = None\<rparr>\<rparr>,
       lookAtFeature := Some \<lparr>geometry = Some \<lparr>oid = 4, point_x = 80, point_y = 960\<rparr>,
                              style = \<lparr>rotation = None\<rparr>\<rparr>,
       nextOid := 6\<rparr>"

text \<open>A drag starts on the active control.\<close>

definition ex_dragging :: GoogleEarthView where
  "ex_dragging =
     ex_active\<lparr>
       gePlugin := Some (ex_plugin\<lparr>frameend_listeners := 1, setFlyToSpeed_calls := [5]\<rparr>),
       gePluginFlyToSpeedSet := True,
       initialLookAt := Some \<lparr>lon = 8, lat = 47\<rparr>,
       initialRange := Some (Num 1000),
       nextOid := 5\<rparr>"

definition ex_stopped :: GoogleEarthView where
  "ex_stopped =
     ex_dragging\<lparr>
       active := False,
       map' := Some ex_map,
       gePlugin := Some (ex_plugin\<lparr>setFlyToSpeed_calls := [5]\<rparr>),
       dragFeatureControl := Some \<lparr>drag_active = False\<rparr>,
       frameendCallback := False\<rparr>"

definition ex_again :: GoogleEarthView where
  "ex_again =
     ex_dragging\<lparr>gePluginFlyToSpeedSet := False, nextOid := 7\<rparr>"

definition ex_dragging_again :: GoogleEarthView where
  "ex_dragging_again =
     ex_dragging\<lparr>
       gePlugin := Some (ex_plugin\<lparr>frameend_listeners := 1, setFlyToSpeed_calls := [5, 5]\<rparr>),
       nextOid := 9\<rparr>"

text \<open>
  A library for a map in geographic coordinates shown one degree per pixel, and a drag of
  the camera marker around the look-at point at the origin.
\<close>

definition ex_plain_lib :: Library where
  "ex_plain_lib =
     \<lparr>Projection_transform = (\<lambda>source dest c. c),
      getLonLatFromViewPortPx = (\<lambda>p. \<lparr>lon = pixel_x p, lat = pixel_y p\<rparr>),
      getViewPortPxFromLonLat = (\<lambda>a. \<lparr>pixel_x = lon a, pixel_y = lat a\<rparr>),
      distVincenty = (\<lambda>a b. \<bar>lon a - lon b\<bar> + \<bar>lat a - lat b\<bar>),
      computeHeading = (\<lambda>a b. 0),
      Math_sin =
        (\<lambda>x. if x = Num (884279719003555 / 562949953421312) then Num 1
             else if x = Num 0 then Num 0 else NaN)\<rparr>"

definition ex_origin :: GoogleEarthView where
  "ex_origin = ex_dragging\<lparr>initialLookAt := Some \<lparr>lon = 0, lat = 0\<rparr>\<rparr>"

section \<open>Properties\<close>

subsection \<open>Rounding to doubles\<close>

lemma pow2_powr: "pow2 k = 2 powr (of_int k)"
proof (cases "0 \<le> k")
  case True
  then show ?thesis
    by (simp add: pow2_def powr_realpow [symmetric])
next
  case False
  then have "(2::real) powr (of_int k) = 1 / 2 powr (of_int (- k))"
    by (simp add: powr_minus_divide)
  also have "\<dots> = 1 / 2 ^ nat (- k)"
    using False by (simp add: powr_realpow [symmetric])
  finally show ?thesis
    using False by (simp add: pow2_def)
qed

lemma pow2_pos: "0 < pow2 k"
  by (simp add: pow2_powr)




lemma exponent_eqI:
  assumes "pow2 e \<le> \<bar>x\<bar>" and "\<bar>x\<bar> < pow2 (e + 1)" and "- 1022 \<le> e"
  shows "exponent x = e"
proof -
  have pos: "0 < \<bar>x\<bar>"
    using assms(1) pow2_pos [of e] by linarith
  have "of_int e \<le> log 2 \<bar>x\<bar>"
    using assms(1) pos by (simp add: le_log_iff pow2_powr)
  moreover have "log 2 \<bar>x\<bar> < of_int e + 1"
    using assms(2) pos by (simp add: log_less_iff pow2_powr)
  ultimately have "\<lfloor>log 2 \<bar>x\<bar>\<rfloor> = e"
    by linarith
  with assms(3) show ?thesis
    by (simp add: exponent_def)
qed

lemma fl_binade:
  assumes "pow2 e \<le> \<bar>x\<bar>" and "\<bar>x\<bar> < pow2 (e + 1)" and "- 1022 \<le> e"
  shows "fl x =
     (let y = of_int (round_half_even (x / pow2 (e - 52))) * pow2 (e - 52)
      in if pow2 1024 \<le> y then PosInfinity
         else if y \<le> - pow2 1024 then NegInfinity
         else Num y)"
proof -
  have "x \<noteq> 0"
    using assms(1) pow2_pos [of e] by auto
  then show ?thesis
    by (simp add: fl_def Let_def exponent_eqI [OF assms])
qed






















lemma js_times_Num: "js_times (Num a) (Num b) = fl (a * b)"
  by (simp add: js_times_def)

lemma js_divide_Num: "b \<noteq> 0 \<Longrightarrow> js_divide (Num a) (Num b) = fl (a / b)"
  by (simp add: js_divide_def)

lemma fl_1000: "fl 1000 = Num 1000"
  by (subst fl_binade [where e = 9]) (simp_all add: pow2_def round_half_even_def Let_def)

lemma fl_2000: "fl 2000 = Num 2000"
  by (subst fl_binade [where e = 10]) (simp_all add: pow2_def round_half_even_def Let_def)

lemma radians_90:
  "js_divide (js_times (Num Math_PI) (Num 90)) (Num 180) =
   Num (884279719003555 / 562949953421312)"
proof -
  have "fl (Math_PI * 90) = Num (4974073419394997 / 17592186044416)"
    unfolding Math_PI_def
    by (subst fl_binade [where e = 8]) (simp_all add: pow2_def round_half_even_def Let_def)
  moreover have "fl (4974073419394997 / 17592186044416 / 180) =
      Num (884279719003555 / 562949953421312)"
    by (subst fl_binade [where e = 0]) (simp_all add: pow2_def round_half_even_def Let_def)
  ultimately show ?thesis
    by (simp add: js_times_Num js_divide_Num)
qed

lemma times_1000:
  shows "js_times (Num 1000) (Num 1) = Num 1000"
    and "js_times (Num 1000) (Num 2) = Num 2000"
    and "js_times (Num 1000) (Num (2308094809027381 / 2251799813685248)) =
         Num (1126999418470401 / 1099511627776)"
    and "js_times (Num 1000) (Num (4616189618054763 / 4503599627370496)) =
         Num (1126999418470401 / 1099511627776)"
proof -
  show "js_times (Num 1000) (Num 1) = Num 1000"
    by (simp add: js_times_Num fl_1000)
  show "js_times (Num 1000) (Num 2) = Num 2000"
    by (simp add: js_times_Num fl_2000)
  have "fl (1000 * (2308094809027381 / 2251799813685248)) =
      Num (1126999418470401 / 1099511627776)"
    by (subst fl_binade [where e = 10]) (simp_all add: pow2_def round_half_even_def Let_def)
  then show "js_times (Num 1000) (Num (2308094809027381 / 2251799813685248)) =
      Num (1126999418470401 / 1099511627776)"
    by (simp only: js_times_Num)
  have "fl (1000 * (4616189618054763 / 4503599627370496)) =
      Num (1126999418470401 / 1099511627776)"
    by (subst fl_binade [where e = 10]) (simp_all add: pow2_def round_half_even_def Let_def)
  then show "js_times (Num 1000) (Num (4616189618054763 / 4503599627370496)) =
      Num (1126999418470401 / 1099511627776)"
    by (simp only: js_times_Num)
qed

lemma divide_by_1:
  shows "js_divide (Num 1000) (Num 1) = Num 1000"
    and "js_divide (Num 2000) (Num 1) = Num 2000"
    and "js_divide (Num (1126999418470401 / 1099511627776)) (Num 1) =
         Num (1126999418470401 / 1099511627776)"
proof -
  show "js_divide (Num 1000) (Num 1) = Num 1000"
    by (simp add: js_divide_Num fl_1000)
  show "js_divide (Num 2000) (Num 1) = Num 2000"
    by (simp add: js_divide_Num fl_2000)
  have "fl (1126999418470401 / 1099511627776) = Num (1126999418470401 / 1099511627776)"
    by (subst fl_binade [where e = 10]) (simp_all add: pow2_def round_half_even_def Let_def)
  then show "js_divide (Num (1126999418470401 / 1099511627776)) (Num 1) =
      Num (1126999418470401 / 1099511627776)"
    by (simp add: js_divide_Num)
qed

lemmas ex_arith = radians_90 times_1000 divide_by_1

subsection \<open>Evaluation of the example session\<close>

lemmas ex_defs =
  ex_lib_def ex_options_def ex_map_def ex_plugin_def ex_constructed_def ex_drawn_def
  ex_ready_def ex_active_def ex_down_plugin_def ex_down_def ex_locked_def
  ex_turned_plugin_def ex_turned_def ex_dragging_def ex_stopped_def ex_again_def
  ex_dragging_again_def ex_active_map_def ex_diagonal_plugin_def ex_diagonal_def
  ex_diagonal_drawn_def ex_plain_lib_def ex_origin_def prototype_def

lemmas method_defs =
  initialize_def draw_def setGEPlugin_def connectGEPlugin_def disconnectGEPlugin_def
  activate_def deactivate_def Control_activate_def Control_deactivate_def
  update_def update_needed_def update_features_def set_gimballLock_def
  newCameraGeometry_def newLookAtGeometry_def camera_rotation_def transform_def
  addFeatures_def removeAllFeatures_def addLayer_def addControl_def removeLayer_def
  removeControl_def onDrag_def onStart_def pixel_lonLat_def setAbstractView_def
  atan2_def Let_def

lemma ex_initialize: "initialize ex_lib ex_options = Inr ex_constructed"
  by (simp add: method_defs ex_defs)

lemma ex_draw: "draw (ex_constructed\<lparr>map' := Some ex_map\<rparr>) = ex_drawn"
  by (simp add: method_defs ex_defs)

lemma ex_setGEPlugin: "setGEPlugin ex_lib (Some ex_plugin) ex_drawn = Inr ex_ready"
  by (simp add: method_defs ex_defs)

lemma ex_activate: "activate ex_lib ex_ready = Inr (True, ex_active)"
  by (simp add: method_defs ex_defs)

lemma ex_update_active: "update ex_lib ex_active = Inr (ex_active\<lparr>nextOid := 5\<rparr>)"
  by (simp add: method_defs ex_defs)

lemma ex_viewchange_down:
  "ex_active\<lparr>gePlugin :=
     Some (ex_plugin\<lparr>frameend_listeners := 1, view_camera := view_camera ex_down_plugin,
                      view_lookAt := view_lookAt ex_down_plugin\<rparr>)\<rparr> = ex_down"
  by (simp add: ex_defs)

lemma ex_update_down: "update ex_lib ex_down = Inr ex_locked"
  by (simp add: method_defs ex_defs)

lemma ex_viewchange_turned:
  "ex_locked\<lparr>gePlugin :=
     Some (ex_down_plugin\<lparr>view_camera := view_camera ex_turned_plugin,
                           view_lookAt := view_lookAt ex_turned_plugin\<rparr>)\<rparr> = ex_turned"
  by (simp add: ex_defs)

lemma ex_update_turned: "update ex_lib ex_turned = Inr (ex_turned\<lparr>nextOid := 8\<rparr>)"
  by (simp add: method_defs ex_defs)

lemma ex_update_diagonal: "update ex_lib ex_diagonal = Inr ex_diagonal_drawn"
  by (simp add: method_defs ex_defs arctan_minus arctan_one)

lemma ex_onStart: "onStart ex_lib CameraFeature ex_active = Inr ex_dragging"
  by (simp add: method_defs ex_defs ex_arith)

lemma ex_deactivate: "deactivate ex_dragging = Inr (True, ex_stopped)"
  by (simp add: method_defs ex_defs)

lemma ex_activate_again: "activate ex_lib ex_stopped = Inr (True, ex_again)"
  by (simp add: method_defs ex_defs)

lemma ex_onStart_again: "onStart ex_lib CameraFeature ex_again = Inr ex_dragging_again"
  by (simp add: method_defs ex_defs ex_arith)

lemma ex_drawn_reachable: "reachable ex_options ex_drawn"
proof -
  have "reachable ex_options ex_constructed"
    by (rule reachable.constructed [OF ex_initialize])
  then have "reachable ex_options (ex_constructed\<lparr>map' := Some ex_map\<rparr>)"
    by (rule reachable.setMap)
  then show ?thesis
    using reachable.performed [of ex_options _ ex_lib Draw] ex_draw by simp
qed

lemma ex_active_reachable: "reachable ex_options ex_active"
proof -
  have "reachable ex_options ex_ready"
    using reachable.performed [OF ex_drawn_reachable, of ex_lib "SetGEPlugin (Some ex_plugin)"]
      ex_setGEPlugin by simp
  then show ?thesis
    using reachable.performed [of ex_options ex_ready ex_lib Activate] ex_activate by simp
qed

lemma ex_down_reachable: "reachable ex_options ex_down"
  using reachable.viewchange [OF ex_active_reachable,
      where ge = "ex_plugin\<lparr>frameend_listeners := 1\<rparr>"
        and c = "view_camera ex_down_plugin" and v = "view_lookAt ex_down_plugin"]
    ex_viewchange_down
  by (simp add: ex_active_def)

lemma ex_turned_reachable: "reachable ex_options ex_turned"
proof -
  have "reachable ex_options ex_locked"
    using reachable.performed [OF ex_down_reachable, of ex_lib Update] ex_update_down by simp
  from reachable.viewchange [OF this, where ge = ex_down_plugin
      and c = "view_camera ex_turned_plugin" and v = "view_lookAt ex_turned_plugin"]
  show ?thesis
    using ex_viewchange_turned by (simp add: ex_locked_def ex_down_def)
qed

lemma ex_dragging_reachable: "reachable ex_options ex_dragging"
  using reachable.performed [OF ex_active_reachable, of ex_lib "OnStart CameraFeature"]
    ex_onStart by simp


subsection \<open>What the methods leave alone\<close>

lemma connect_fields:
  "connectGEPlugin s = Inr s' \<Longrightarrow>
   layer s' = layer s \<and> featuresAdded s' = featuresAdded s \<and> gimballLock s' = gimballLock s \<and>
   gimballLockThreshold s' = gimballLockThreshold s"
  by (auto simp: connectGEPlugin_def split: option.splits)

lemma disconnect_fields:
  "disconnectGEPlugin s = Inr s' \<Longrightarrow>
   layer s' = layer s \<and> featuresAdded s' = featuresAdded s \<and> gimballLock s' = gimballLock s \<and>
   gimballLockThreshold s' = gimballLockThreshold s"
  by (auto simp: disconnectGEPlugin_def split: option.splits if_splits)

lemma onDrag_fields:
  "onDrag lib feature pixel s = Inr s' \<Longrightarrow>
   layer s' = layer s \<and> featuresAdded s' = featuresAdded s \<and> gimballLock s' = gimballLock s \<and>
   gimballLockThreshold s' = gimballLockThreshold s"
  by (auto simp: onDrag_def Let_def split: option.splits if_splits)

lemma onStart_fields:
  "onStart lib feature s = Inr s' \<Longrightarrow>
   layer s' = layer s \<and> featuresAdded s' = featuresAdded s \<and> gimballLock s' = gimballLock s \<and>
   gimballLockThreshold s' = gimballLockThreshold s"
  by (auto simp: onStart_def Let_def split: option.splits if_splits)

subsection \<open>The two ways through \<^verbatim>\<open>update\<close>\<close>

lemma update_Inr:
  assumes "update lib s = Inr s'"
  shows "\<exists>m ge. map' s = Some m \<and> gePlugin s = Some ge \<and>
    ((update_needed (newCameraGeometry lib s m ge) (newLookAtGeometry lib s m ge) (gimballLock s)
        (set_gimballLock ge s) = Inr False \<and> s' = set_gimballLock ge s) \<or>
     (update_needed (newCameraGeometry lib s m ge) (newLookAtGeometry lib s m ge) (gimballLock s)
        (set_gimballLock ge s) = Inr True \<and>
      update_features lib (view_camera ge) (view_lookAt ge)
        (newCameraGeometry lib s m ge) (newLookAtGeometry lib s m ge)
        (set_gimballLock ge s) = Inr s'))"
proof -
  obtain m where m: "map' s = Some m"
    using assms by (cases "map' s") (simp_all add: update_def)
  obtain ge where ge: "gePlugin s = Some ge"
    using assms m by (cases "gePlugin s") (simp_all add: update_def)
  show ?thesis
    using assms m ge
    by (simp add: update_def Let_def split: sum.splits if_splits)
qed

lemma update_features_Inr:
  assumes "update_features lib c v nc nl s = Inr s'"
  shows "\<exists>l cf lf lnf. layer s = Some l \<and> cameraFeature s = Some cf \<and>
           lookAtFeature s = Some lf \<and> lineFeature s = Some lnf"
proof -
  obtain l where l: "layer s = Some l"
    using assms by (cases "layer s") (simp_all add: update_features_def)
  obtain cf where cf: "cameraFeature s = Some cf"
    using assms l by (cases "cameraFeature s") (simp_all add: update_features_def)
  obtain lf where lf: "lookAtFeature s = Some lf"
    using assms l cf by (cases "lookAtFeature s") (simp_all add: update_features_def)
  obtain lnf where lnf: "lineFeature s = Some lnf"
    using assms l cf lf by (cases "lineFeature s") (simp_all add: update_features_def)
  show ?thesis
    using l cf lf lnf by simp
qed

lemma update_features_fields:
  assumes "update_features lib c v nc nl s = Inr s'"
  shows "featuresAdded s' \<and> gimballLock s' = gimballLock s \<and>
         gimballLockThreshold s' = gimballLockThreshold s \<and>
         (\<exists>l l'. layer s = Some l \<and> layer s' = Some l' \<and>
            features l' =
              (if featuresAdded s then [] else features l) @ shown_features (gimballLock s))"
proof -
  from update_features_Inr [OF assms] obtain l cf lf lnf where
    "layer s = Some l" "cameraFeature s = Some cf" "lookAtFeature s = Some lf"
    "lineFeature s = Some lnf"
    by blast
  with assms show ?thesis
    by (auto simp: update_features_def Let_def shown_features_def addFeatures_def
        removeAllFeatures_def split: if_splits)
qed

lemma update_features_rotation:
  assumes "update_features lib c v nc nl s = Inr s'"
  shows "\<exists>cf. cameraFeature s' = Some cf \<and>
           rotation (style cf) =
             Some (if gimballLock s then heading v else camera_rotation lib c v)"
proof -
  from update_features_Inr [OF assms] obtain l cf lf lnf where
    "layer s = Some l" "cameraFeature s = Some cf" "lookAtFeature s = Some lf"
    "lineFeature s = Some lnf"
    by blast
  with assms show ?thesis
    by (auto simp: update_features_def Let_def split: if_splits)
qed

lemma update_needed_False:
  "update_needed nc nl prev s = Inr False \<Longrightarrow> featuresAdded s \<and> gimballLock s = prev"
  by (auto simp: update_needed_def split: if_splits option.splits)

lemma update_threshold:
  "update lib s = Inr s' \<Longrightarrow> gimballLockThreshold s' = gimballLockThreshold s"
  by (drule update_Inr) (auto simp: set_gimballLock_def dest: update_features_fields)

lemma update_gimballLock:
  "update lib s = Inr s' \<Longrightarrow> gePlugin s = Some ge \<Longrightarrow>
   gimballLock s' = (camera_tilt (view_camera ge) < gimballLockThreshold s)"
  by (drule update_Inr) (auto simp: set_gimballLock_def dest: update_features_fields)

lemma update_layer_inv:
  assumes "update lib s = Inr s'" and "layer_inv s"
  shows "layer_inv s' \<and> featuresAdded s'"
proof -
  from update_Inr [OF assms(1)] obtain m ge where
    c: "(update_needed (newCameraGeometry lib s m ge) (newLookAtGeometry lib s m ge)
          (gimballLock s) (set_gimballLock ge s) = Inr False \<and> s' = set_gimballLock ge s) \<or>
     (update_features lib (view_camera ge) (view_lookAt ge)
        (newCameraGeometry lib s m ge) (newLookAtGeometry lib s m ge)
        (set_gimballLock ge s) = Inr s')"
    by blast
  then show ?thesis
  proof
    assume a: "update_needed (newCameraGeometry lib s m ge) (newLookAtGeometry lib s m ge)
        (gimballLock s) (set_gimballLock ge s) = Inr False \<and> s' = set_gimballLock ge s"
    then have "featuresAdded (set_gimballLock ge s)"
      and "gimballLock (set_gimballLock ge s) = gimballLock s"
      using update_needed_False by blast+
    with a assms(2) show ?thesis
      by (auto simp: layer_inv_def set_gimballLock_def split: option.splits)
  next
    assume "update_features lib (view_camera ge) (view_lookAt ge)
        (newCameraGeometry lib s m ge) (newLookAtGeometry lib s m ge)
        (set_gimballLock ge s) = Inr s'"
    from update_features_fields [OF this] assms(2) show ?thesis
      by (auto simp: layer_inv_def set_gimballLock_def split: option.splits if_splits)
  qed
qed

subsection \<open>The invariant of the layer\<close>

lemma inv_fields:
  "control_inv options s \<Longrightarrow> layer s' = layer s \<Longrightarrow> featuresAdded s' = featuresAdded s \<Longrightarrow>
   gimballLock s' = gimballLock s \<Longrightarrow> gimballLockThreshold s' = gimballLockThreshold s \<Longrightarrow>
   control_inv options s'"
  by (simp add: control_inv_def layer_inv_def split: option.splits)

lemma inv_update:
  "control_inv options s \<Longrightarrow> update lib s = Inr s' \<Longrightarrow> control_inv options s'"
  by (simp add: control_inv_def update_layer_inv update_threshold)

lemma inv_setGEPlugin:
  assumes "control_inv options s" and "setGEPlugin lib handle s = Inr s'"
  shows "control_inv options s'"
proof -
  obtain s1 where s1: "disconnectGEPlugin s = Inr s1"
    using assms(2) by (cases "disconnectGEPlugin s") (simp_all add: setGEPlugin_def)
  have i1: "control_inv options s1"
    using inv_fields [OF assms(1)] disconnect_fields [OF s1] by blast
  show ?thesis
  proof (cases handle)
    case None
    with assms(2) s1 have "s' = s1\<lparr>gePlugin := None\<rparr>"
      by (simp add: setGEPlugin_def)
    with i1 show ?thesis by (auto elim: inv_fields)
  next
    case (Some ge)
    let ?s3 = "s1\<lparr>gePlugin := Some ge, altitudeMode := ALTITUDE_RELATIVE_TO_GROUND ge\<rparr>"
    have i3: "control_inv options ?s3"
      using i1 by (rule inv_fields) simp_all
    show ?thesis
    proof (cases "active s1")
      case False
      with assms(2) s1 Some have "s' = ?s3"
        by (simp add: setGEPlugin_def Let_def)
      with i3 show ?thesis by simp
    next
      case True
      with assms(2) s1 Some obtain s4 where
        s4: "connectGEPlugin ?s3 = Inr s4" and u: "update lib s4 = Inr s'"
        by (auto simp: setGEPlugin_def Let_def split: sum.splits)
      have "control_inv options s4"
        using inv_fields [OF i3] connect_fields [OF s4] by blast
      then show ?thesis using u by (rule inv_update)
    qed
  qed
qed

lemma inv_draw: "control_inv options s \<Longrightarrow> control_inv options (draw s)"
  by (auto simp: draw_def Let_def control_inv_def layer_inv_def split: option.splits)

lemma inv_activate:
  assumes "control_inv options s" and "activate lib s = Inr (b, s')"
  shows "control_inv options s'"
proof (cases "\<not> active s \<and> gePlugin s \<noteq> None")
  case False
  with assms(2) have "s' = s \<or> s' = s\<lparr>active := True\<rparr>"
    by (auto simp: activate_def Control_activate_def split: if_splits)
  with assms(1) show ?thesis by (auto elim: inv_fields)
next
  case True
  with assms(2) obtain m l d s3 where
    "map' s = Some m" "layer s = Some l" "dragFeatureControl s = Some d" and
    s3: "connectGEPlugin (s\<lparr>active := True, map' := Some (addControl (addLayer m)),
            dragFeatureControl := Some (d\<lparr>drag_active := True\<rparr>)\<rparr>) = Inr s3" and
    u: "update lib s3 = Inr s'"
    by (auto simp: activate_def Control_activate_def Let_def split: option.splits sum.splits)
  have "control_inv options (s\<lparr>active := True, map' := Some (addControl (addLayer m)),
            dragFeatureControl := Some (d\<lparr>drag_active := True\<rparr>)\<rparr>)"
    using assms(1) by (rule inv_fields) simp_all
  then have "control_inv options s3"
    using inv_fields connect_fields [OF s3] by blast
  then show ?thesis using u by (rule inv_update)
qed

lemma inv_deactivate:
  assumes "control_inv options s" and "deactivate s = Inr (b, s')"
  shows "control_inv options s'"
proof (cases "active s")
  case False
  with assms show ?thesis by (simp add: deactivate_def Control_deactivate_def)
next
  case True
  with assms(2) obtain s2 d m where
    s2: "disconnectGEPlugin (s\<lparr>active := False\<rparr>) = Inr s2" and
    s': "s' = s2\<lparr>dragFeatureControl := Some (d\<lparr>drag_active := False\<rparr>),
                 map' := Some (removeLayer (removeControl m))\<rparr>"
    by (auto simp: deactivate_def Control_deactivate_def split: option.splits sum.splits)
  have "control_inv options (s\<lparr>active := False\<rparr>)"
    using assms(1) by (rule inv_fields) simp_all
  then have "control_inv options s2"
    using inv_fields disconnect_fields [OF s2] by blast
  with s' show ?thesis by (auto elim: inv_fields)
qed

lemma inv_perform:
  "control_inv options s \<Longrightarrow> perform lib opn s = Inr s' \<Longrightarrow> control_inv options s'"
proof (cases opn)
  case Activate
  assume "control_inv options s" "perform lib opn s = Inr s'"
  with Activate show ?thesis
    by (cases "activate lib s") (auto dest: inv_activate [of options s lib])
next
  case Deactivate
  assume "control_inv options s" "perform lib opn s = Inr s'"
  with Deactivate show ?thesis
    by (cases "deactivate s") (auto dest: inv_deactivate [of options s])
qed (auto intro: inv_draw inv_setGEPlugin inv_update dest: onDrag_fields onStart_fields
     elim: inv_fields)

lemma inv_initialize: "initialize lib options = Inr s \<Longrightarrow> control_inv options s"
proof -
  assume a: "initialize lib options = Inr s"
  let ?s0 = "prototype\<lparr>
            gePlugin := opt_gePlugin options,
            layerName :=
              (case opt_layerName options of
                 None \<Rightarrow> ''Google Earth view control''
               | Some n \<Rightarrow> if n = [] then ''Google Earth view control'' else n),
            cameraStyle :=
              (case opt_cameraStyle options of
                 None \<Rightarrow> \<lparr>rotation = Some 0\<rparr>
               | Some st \<Rightarrow> st),
            gimballLockThreshold :=
              (case opt_gimballLockThreshold options of None \<Rightarrow> 1 | Some t \<Rightarrow> t),
            geProjection := ''EPSG:4326''\<rparr>"
  have i: "control_inv options ?s0"
    by (simp add: control_inv_def layer_inv_def prototype_def threshold_of_def)
  from a have "s = ?s0 \<or> setGEPlugin lib (opt_gePlugin options) ?s0 = Inr s"
    by (auto simp: initialize_def Let_def split: if_splits)
  with i show ?thesis using inv_setGEPlugin by blast
qed

lemma reachable_inv: "reachable options s \<Longrightarrow> control_inv options s"
proof (induction rule: reachable.induct)
  case (constructed lib s)
  then show ?case by (rule inv_initialize)
next
  case (performed s lib opn s')
  then show ?case using inv_perform by blast
qed (auto elim: inv_fields)

subsection \<open>The gimbal lock flag and the features on the layer\<close>

text \<open>
  Claim C1.  After every \<^verbatim>\<open>update\<close> of a control that arose from the constructor
  by the methods and the moves of its surroundings, the gimbal lock flag says whether the
  tilt of the camera is below the threshold (1 unless the options gave another), and the
  layer holds exactly the camera marker when the flag is true, and exactly the line, the
  look-at marker and the camera marker when it is false.
\<close>

theorem update_gimballLock_features:
  assumes "reachable options s" and "gePlugin s = Some ge" and "update lib s = Inr s'"
  shows "gimballLock s' =
           (camera_tilt (view_camera ge) <
              (case opt_gimballLockThreshold options of None \<Rightarrow> 1 | Some t \<Rightarrow> t)) \<and>
         map_option features (layer s') =
           Some (if gimballLock s' then [CameraFeature]
                 else [LineFeature, LookAtFeature, CameraFeature])"
proof -
  from reachable_inv [OF assms(1)]
  have li: "layer_inv s" and th: "gimballLockThreshold s = threshold_of options"
    by (simp_all add: control_inv_def)
  from update_layer_inv [OF assms(3) li]
  have "layer_inv s'" and "featuresAdded s'"
    by simp_all
  then have "map_option features (layer s') = Some (shown_features (gimballLock s'))"
    by (cases "layer s'") (simp_all add: layer_inv_def)
  moreover have "gimballLock s' = (camera_tilt (view_camera ge) < threshold_of options)"
    using update_gimballLock [OF assms(3) assms(2)] th by simp
  ultimately show ?thesis
    by (simp add: shown_features_def threshold_of_def)
qed

theorem update_gimballLock_features_witness:
  "reachable ex_options ex_down \<and> gePlugin ex_down = Some ex_down_plugin \<and>
   update ex_lib ex_down = Inr ex_locked \<and>
   camera_tilt (view_camera ex_down_plugin) < 1 \<and>
   gimballLock ex_locked \<and> map_option features (layer ex_locked) = Some [CameraFeature]"
proof -
  have p: "gePlugin ex_down = Some ex_down_plugin"
    by (simp add: ex_down_def)
  from update_gimballLock_features [OF ex_down_reachable p ex_update_down]
  show ?thesis
    using ex_down_reachable p ex_update_down
    by (simp add: ex_options_def ex_down_plugin_def ex_locked_def)
qed


subsection \<open>An unchanged pose\<close>

lemma update_no_change:
  assumes "featuresAdded s" and "map' s = Some m" and "gePlugin s = Some ge"
    and "cameraFeature s = Some cf" and "geometry cf = Some cg"
    and "lookAtFeature s = Some lf" and "geometry lf = Some lg"
    and "point_x (newCameraGeometry lib s m ge) = point_x cg"
    and "point_y (newCameraGeometry lib s m ge) = point_y cg"
    and "point_x (newLookAtGeometry lib s m ge) = point_x lg"
    and "point_y (newLookAtGeometry lib s m ge) = point_y lg"
    and "(camera_tilt (view_camera ge) < gimballLockThreshold s) = gimballLock s"
  shows "update lib s = Inr (s\<lparr>nextOid := nextOid s + 2\<rparr>)"
proof -
  have "update_needed (newCameraGeometry lib s m ge) (newLookAtGeometry lib s m ge)
          (gimballLock s) (set_gimballLock ge s) = Inr False"
    using assms by (simp add: update_needed_def set_gimballLock_def)
  moreover have "set_gimballLock ge s = s\<lparr>nextOid := nextOid s + 2\<rparr>"
    using assms(12) by (simp add: set_gimballLock_def)
  ultimately show ?thesis
    using assms(2,3) by (simp add: update_def)
qed

text \<open>
  Claim C2.  When the features were added, the projected positions of the camera and of
  the look-at point are the coordinates that the two markers have, and the tilt gives the
  gimbal lock flag that is set, \<^verbatim>\<open>update\<close> returns the control as it was but for
  the two object identifiers taken by its temporary points: the three features keep their
  geometry objects, and the layer its features and the log of its calls, to which no
  \<^verbatim>\<open>removeAllFeatures\<close> and no \<^verbatim>\<open>addFeatures\<close> is added.
\<close>

theorem update_unchanged_pose:
  assumes "featuresAdded s" and "map' s = Some m" and "gePlugin s = Some ge"
    and "cameraFeature s = Some cf" and "geometry cf = Some cg"
    and "lookAtFeature s = Some lf" and "geometry lf = Some lg"
    and "Projection_transform lib (geProjection s) (projection m)
           (camera_longitude (view_camera ge), camera_latitude (view_camera ge)) =
         (point_x cg, point_y cg)"
    and "Projection_transform lib (geProjection s) (projection m)
           (longitude (view_lookAt ge), latitude (view_lookAt ge)) =
         (point_x lg, point_y lg)"
    and "(camera_tilt (view_camera ge) < gimballLockThreshold s) = gimballLock s"
  shows "update lib s = Inr (s\<lparr>nextOid := nextOid s + 2\<rparr>)"
proof -
  have c: "point_x (newCameraGeometry lib s m ge) = point_x cg"
    "point_y (newCameraGeometry lib s m ge) = point_y cg"
    using assms(8) by (simp_all add: newCameraGeometry_def transform_def)
  have l: "point_x (newLookAtGeometry lib s m ge) = point_x lg"
    "point_y (newLookAtGeometry lib s m ge) = point_y lg"
    using assms(9) by (simp_all add: newLookAtGeometry_def transform_def)
  show ?thesis
    by (rule update_no_change [OF assms(1-7) c l assms(10)])
qed

theorem update_unchanged_pose_witness:
  "featuresAdded ex_active \<and>
   update ex_lib ex_active = Inr (ex_active\<lparr>nextOid := nextOid ex_active + 2\<rparr>) \<and>
   layer (ex_active\<lparr>nextOid := nextOid ex_active + 2\<rparr>) = layer ex_active \<and>
   cameraFeature (ex_active\<lparr>nextOid := nextOid ex_active + 2\<rparr>) = cameraFeature ex_active"
  using update_unchanged_pose [of ex_active ex_active_map
        "ex_plugin\<lparr>frameend_listeners := 1\<rparr>"
        "\<lparr>geometry = Some \<lparr>oid = 0, point_x = 70, point_y = 940\<rparr>,
          style = \<lparr>rotation = Some 90\<rparr>\<rparr>" "\<lparr>oid = 0, point_x = 70, point_y = 940\<rparr>"
        "\<lparr>geometry = Some \<lparr>oid = 1, point_x = 80, point_y = 940\<rparr>,
          style = \<lparr>rotation = None\<rparr>\<rparr>" "\<lparr>oid = 1, point_x = 80, point_y = 940\<rparr>" ex_lib]
  by (simp add: ex_defs)

subsection \<open>Dragging the markers\<close>

lemma pixel_lonLat_eq:
  assumes "c = Projection_transform lib mapProjection geProj
             (lon (getLonLatFromViewPortPx lib pixel), lat (getLonLatFromViewPortPx lib pixel))"
  shows "pixel_lonLat lib mapProjection geProj n pixel = \<lparr>lon = fst c, lat = snd c\<rparr>"
  using assms by (simp add: pixel_lonLat_def transform_def Let_def)

lemma onDrag_camera_eq:
  assumes "map' s = Some m" and "layer s = Some l" and "gePlugin s = Some ge"
    and "initialLookAt s = Some a" and "\<not> gimballLock s"
    and "c = Projection_transform lib (projection m) (geProjection s)
               (lon (getLonLatFromViewPortPx lib pixel), lat (getLonLatFromViewPortPx lib pixel))"
    and "p = \<lparr>lon = fst c, lat = snd c\<rparr>"
  shows "onDrag lib CameraFeature pixel s =
     Inr (s\<lparr>nextOid := nextOid s + 1,
            gePlugin := Some (ge\<lparr>setAbstractView_calls := setAbstractView_calls ge @
              [(view_lookAt ge)\<lparr>
                 longitude := lon a, latitude := lat a,
                 heading := - computeHeading lib p a,
                 range' := Some (js_divide
                   (js_times (Num 1000) (Num (distVincenty lib p a)))
                   (Math_sin lib
                      (js_divide (js_times (Num Math_PI) (Num (tilt (view_lookAt ge))))
                         (Num 180))))\<rparr>]\<rparr>)\<rparr>)"
  using assms(1-5) pixel_lonLat_eq [OF assms(6), of "nextOid s"] assms(7)
  by (simp add: onDrag_def Let_def setAbstractView_def)

lemma onDrag_lookAt_eq:
  assumes "map' s = Some m" and "layer s = Some l" and "gePlugin s = Some ge"
    and "feature = LookAtFeature \<or> (feature = CameraFeature \<and> gimballLock s)"
    and "c = Projection_transform lib (projection m) (geProjection s)
               (lon (getLonLatFromViewPortPx lib pixel), lat (getLonLatFromViewPortPx lib pixel))"
    and "p = \<lparr>lon = fst c, lat = snd c\<rparr>"
  shows "onDrag lib feature pixel s =
     Inr (s\<lparr>nextOid := nextOid s + 1,
            gePlugin := Some (ge\<lparr>setAbstractView_calls := setAbstractView_calls ge @
              [(view_lookAt ge)\<lparr>range' := initialRange s, longitude := lon p,
                                latitude := lat p\<rparr>]\<rparr>)\<rparr>)"
  using assms(1-4) pixel_lonLat_eq [OF assms(5), of "nextOid s"] assms(6)
  by (auto simp: onDrag_def Let_def setAbstractView_def)

text \<open>
  Claim C3.  Dragging the camera marker outside gimbal lock pushes to the plugin the
  current look-at view with four changes.  Its longitude and latitude are those of the
  look-at point kept at the start of the drag.  Its heading is minus the heading from
  the new camera point to that point, the new camera point being the position that the
  layer gives for the pixel, transformed from the projection of the map to the geographic
  projection.  Its range is 1000 times the distance of the two points, divided by the
  sine of the tilt times \<^verbatim>\<open>Math.PI\<close> by 180, in double arithmetic.  The tilt is the
  one the plugin reports.
\<close>

theorem onDrag_camera_not_locked:
  assumes "map' s = Some m" and "layer s = Some l" and "gePlugin s = Some ge"
    and "initialLookAt s = Some a" and "\<not> gimballLock s"
    and "c = Projection_transform lib (projection m) (geProjection s)
               (lon (getLonLatFromViewPortPx lib pixel), lat (getLonLatFromViewPortPx lib pixel))"
    and "p = \<lparr>lon = fst c, lat = snd c\<rparr>"
  shows "\<exists>v. onDrag lib CameraFeature pixel s =
           Inr (s\<lparr>nextOid := nextOid s + 1,
                  gePlugin := Some (ge\<lparr>setAbstractView_calls :=
                                           setAbstractView_calls ge @ [v]\<rparr>)\<rparr>) \<and>
         longitude v = lon a \<and> latitude v = lat a \<and>
         heading v = - computeHeading lib p a \<and>
         range' v =
           Some (js_divide
             (js_times (Num 1000) (Num (distVincenty lib p a)))
             (Math_sin lib
                (js_divide (js_times (Num Math_PI) (Num (tilt (view_lookAt ge))))
                   (Num 180)))) \<and>
         tilt v = tilt (view_lookAt ge)"
proof -
  let ?v = "(view_lookAt ge)\<lparr>
              longitude := lon a, latitude := lat a,
              heading := - computeHeading lib p a,
              range' := Some (js_divide
                (js_times (Num 1000) (Num (distVincenty lib p a)))
                (Math_sin lib
                   (js_divide (js_times (Num Math_PI) (Num (tilt (view_lookAt ge))))
                      (Num 180))))\<rparr>"
  show ?thesis
    using onDrag_camera_eq [OF assms]
    by (intro exI [of _ ?v]) simp
qed

theorem onDrag_camera_not_locked_witness:
  "\<not> gimballLock ex_dragging \<and> initialLookAt ex_dragging = Some \<lparr>lon = 8, lat = 47\<rparr> \<and>
   getLonLatFromViewPortPx ex_lib \<lparr>pixel_x = 30, pixel_y = - 470\<rparr> = \<lparr>lon = 60, lat = 940\<rparr> \<and>
   Projection_transform ex_lib ''EPSG:900913'' ''EPSG:4326'' (60, 940) = (6, 47) \<and>
   last_view (projr (onDrag ex_lib CameraFeature \<lparr>pixel_x = 30, pixel_y = - 470\<rparr> ex_dragging)) =
     Some \<lparr>longitude = 8, latitude = 47, heading = - 180, tilt = 90,
           range' = Some (Num 2000)\<rparr>"
  using onDrag_camera_not_locked [of ex_dragging ex_active_map "the (layer ex_active)"
      "ex_plugin\<lparr>frameend_listeners := 1, setFlyToSpeed_calls := [5]\<rparr>"
      "\<lparr>lon = 8, lat = 47\<rparr>" "(6, 47)" ex_lib "\<lparr>pixel_x = 30, pixel_y = - 470\<rparr>"
      "\<lparr>lon = 6, lat = 47\<rparr>"]
  by (auto simp: ex_defs last_view_def ex_arith)

text \<open>
  Claim C4.  Dragging the look-at marker, or the camera marker in gimbal lock, pushes to
  the plugin the current look-at view with its longitude and latitude set to the
  position that the layer gives for the pixel, transformed from the projection of the map
  to the geographic projection, and its range set to the range kept at the start of the
  drag, whatever it is; the range is not computed from the new point.
\<close>

theorem onDrag_lookAt_or_locked:
  assumes "map' s = Some m" and "layer s = Some l" and "gePlugin s = Some ge"
    and "feature = LookAtFeature \<or> (feature = CameraFeature \<and> gimballLock s)"
    and "c = Projection_transform lib (projection m) (geProjection s)
               (lon (getLonLatFromViewPortPx lib pixel), lat (getLonLatFromViewPortPx lib pixel))"
  shows "\<exists>v. onDrag lib feature pixel s =
           Inr (s\<lparr>nextOid := nextOid s + 1,
                  gePlugin := Some (ge\<lparr>setAbstractView_calls :=
                                           setAbstractView_calls ge @ [v]\<rparr>)\<rparr>) \<and>
         longitude v = fst c \<and> latitude v = snd c \<and>
         range' v = initialRange s \<and>
         heading v = heading (view_lookAt ge) \<and> tilt v = tilt (view_lookAt ge)"
proof -
  let ?v = "(view_lookAt ge)\<lparr>range' := initialRange s, longitude := fst c,
                             latitude := snd c\<rparr>"
  show ?thesis
    using onDrag_lookAt_eq [OF assms, of "\<lparr>lon = fst c, lat = snd c\<rparr>"]
    by (intro exI [of _ ?v]) simp
qed

theorem onDrag_lookAt_or_locked_witness:
  "initialRange ex_dragging = Some (Num 1000) \<and>
   getLonLatFromViewPortPx ex_lib \<lparr>pixel_x = 45, pixel_y = - 480\<rparr> = \<lparr>lon = 90, lat = 960\<rparr> \<and>
   Projection_transform ex_lib ''EPSG:900913'' ''EPSG:4326'' (90, 960) = (9, 48) \<and>
   last_view (projr (onDrag ex_lib LookAtFeature \<lparr>pixel_x = 45, pixel_y = - 480\<rparr> ex_dragging)) =
     Some \<lparr>longitude = 9, latitude = 48, heading = 90, tilt = 90,
           range' = Some (Num 1000)\<rparr> \<and>
   initialRange ex_active = None \<and>
   last_view (projr (onDrag ex_lib LookAtFeature \<lparr>pixel_x = 45, pixel_y = - 480\<rparr> ex_active)) =
     Some \<lparr>longitude = 9, latitude = 48, heading = 90, tilt = 90, range' = None\<rparr>"
  using onDrag_lookAt_or_locked [of ex_dragging ex_active_map "the (layer ex_active)"
      "ex_plugin\<lparr>frameend_listeners := 1, setFlyToSpeed_calls := [5]\<rparr>"
      LookAtFeature "(9, 48)" ex_lib "\<lparr>pixel_x = 45, pixel_y = - 480\<rparr>"]
    onDrag_lookAt_or_locked [of ex_active ex_active_map "the (layer ex_active)"
      "ex_plugin\<lparr>frameend_listeners := 1\<rparr>"
      LookAtFeature "(9, 48)" ex_lib "\<lparr>pixel_x = 45, pixel_y = - 480\<rparr>"]
  by (auto simp: ex_defs last_view_def)

subsection \<open>The range and the distance\<close>








subsection \<open>The rotation of the camera marker\<close>

lemma ex_diagonal_reachable: "reachable ex_options ex_diagonal"
  using reachable.viewchange [OF ex_active_reachable,
      where ge = "ex_plugin\<lparr>frameend_listeners := 1\<rparr>"
        and c = "view_camera ex_diagonal_plugin" and v = "view_lookAt ex_diagonal_plugin"]
  by (simp add: ex_defs)

text \<open>
  Claim C6.  The code does not do what the claim says.  In the example session the
  control is in gimbal lock with the camera marker rotated to the heading 45; the plugin
  turns to the heading 120 without moving; the next \<^verbatim>\<open>update\<close> finds the flag and
  the positions unchanged, since its test for a change does not read the heading, and
  leaves the rotation at 45.
\<close>

theorem update_rotation_not_heading:
  "reachable ex_options ex_turned \<and>
   gePlugin ex_turned = Some ex_turned_plugin \<and>
   heading (view_lookAt ex_turned_plugin) = 120 \<and>
   update ex_lib ex_turned = Inr (ex_turned\<lparr>nextOid := 8\<rparr>) \<and>
   gimballLock (ex_turned\<lparr>nextOid := 8\<rparr>) \<and>
   map_option (\<lambda>cf. rotation (style cf)) (cameraFeature (ex_turned\<lparr>nextOid := 8\<rparr>)) =
     Some (Some 45)"
  using ex_turned_reachable ex_update_turned
  by (simp add: ex_defs)

text \<open>
  Outside gimbal lock the code hands the geographic longitude and latitude of the two
  points to the layer, which takes positions in the projection of the map.  On the
  example map the camera marker is drawn at the pixel (35, -470) and the look-at marker
  at (40, -480), while the rotation, 45, is the one for the pixels of the untransformed
  positions.
\<close>

lemma atan2_example: "90 + 180 * atan2 (- 480 - (- 470)) (40 - 35) / pi \<noteq> 45"
proof
  assume "90 + 180 * atan2 (- 480 - (- 470)) (40 - 35) / pi = 45"
  then have "180 * arctan (- 2) / pi = - 45"
    by (simp add: atan2_def)
  then have "arctan (- 2) = - (pi / 4)"
    using pi_gt_zero by (simp add: field_simps)
  then have "arctan (- 2) = arctan (- 1)"
    by (simp add: arctan_minus arctan_one)
  then show False
    by (simp add: arctan_eq_iff)
qed

lemma update_rotation_unprojected:
  "reachable ex_options ex_diagonal \<and>
   update ex_lib ex_diagonal = Inr ex_diagonal_drawn \<and>
   \<not> gimballLock ex_diagonal_drawn \<and>
   map_option (\<lambda>cf. rotation (style cf)) (cameraFeature ex_diagonal_drawn) = Some (Some 45) \<and>
   map_option
     (\<lambda>cf. map_option
        (\<lambda>g. getViewPortPxFromLonLat ex_lib \<lparr>lon = point_x g, lat = point_y g\<rparr>) (geometry cf))
     (cameraFeature ex_diagonal_drawn) = Some (Some \<lparr>pixel_x = 35, pixel_y = - 470\<rparr>) \<and>
   map_option
     (\<lambda>lf. map_option
        (\<lambda>g. getViewPortPxFromLonLat ex_lib \<lparr>lon = point_x g, lat = point_y g\<rparr>) (geometry lf))
     (lookAtFeature ex_diagonal_drawn) = Some (Some \<lparr>pixel_x = 40, pixel_y = - 480\<rparr>) \<and>
   90 + 180 * atan2 (- 480 - (- 470)) (40 - 35) / pi \<noteq> 45"
  using ex_diagonal_reachable ex_update_diagonal atan2_example
  by (simp add: ex_defs)

subsection \<open>The fly-to speed flag\<close>

lemma speed_calls_eq:
  "map_option (\<lambda>ge. (setFlyToSpeed_calls ge, SPEED_TELEPORT ge)) (gePlugin s') =
   map_option (\<lambda>ge. (setFlyToSpeed_calls ge, SPEED_TELEPORT ge)) (gePlugin s) \<Longrightarrow>
   speed_calls s' = speed_calls s \<and>
   map_option SPEED_TELEPORT (gePlugin s') = map_option SPEED_TELEPORT (gePlugin s)"
  by (cases "gePlugin s"; cases "gePlugin s'") (simp_all add: speed_calls_def)

lemma flag_connect:
  "connectGEPlugin s = Inr s' \<Longrightarrow>
   \<not> gePluginFlyToSpeedSet s' \<and> active s' = active s \<and>
   map_option (\<lambda>ge. (setFlyToSpeed_calls ge, SPEED_TELEPORT ge)) (gePlugin s') =
   map_option (\<lambda>ge. (setFlyToSpeed_calls ge, SPEED_TELEPORT ge)) (gePlugin s)"
  by (auto simp: connectGEPlugin_def split: option.splits)

lemma flag_disconnect:
  "disconnectGEPlugin s = Inr s' \<Longrightarrow>
   gePluginFlyToSpeedSet s' = gePluginFlyToSpeedSet s \<and> active s' = active s \<and>
   map_option (\<lambda>ge. (setFlyToSpeed_calls ge, SPEED_TELEPORT ge)) (gePlugin s') =
   map_option (\<lambda>ge. (setFlyToSpeed_calls ge, SPEED_TELEPORT ge)) (gePlugin s)"
  by (auto simp: disconnectGEPlugin_def split: option.splits if_splits)

lemma update_features_plugin:
  assumes "update_features lib c v nc nl s = Inr s'"
  shows "gePlugin s' = gePlugin s \<and> gePluginFlyToSpeedSet s' = gePluginFlyToSpeedSet s \<and>
         active s' = active s \<and> frameendCallback s' = frameendCallback s"
proof -
  from update_features_Inr [OF assms] obtain l cf lf lnf where
    "layer s = Some l" "cameraFeature s = Some cf" "lookAtFeature s = Some lf"
    "lineFeature s = Some lnf"
    by blast
  with assms show ?thesis
    by (auto simp: update_features_def Let_def split: if_splits)
qed

lemma flag_update:
  "update lib s = Inr s' \<Longrightarrow>
   gePlugin s' = gePlugin s \<and> gePluginFlyToSpeedSet s' = gePluginFlyToSpeedSet s \<and>
   active s' = active s \<and> frameendCallback s' = frameendCallback s"
  by (drule update_Inr) (auto simp: set_gimballLock_def dest: update_features_plugin)

lemma flag_setGEPlugin:
  assumes "setGEPlugin lib handle s = Inr s'"
  shows "gePluginFlyToSpeedSet s' =
           (gePluginFlyToSpeedSet s \<and> \<not> (active s \<and> handle \<noteq> None))"
proof -
  obtain s1 where s1: "disconnectGEPlugin s = Inr s1"
    using assms by (cases "disconnectGEPlugin s") (simp_all add: setGEPlugin_def)
  note d = flag_disconnect [OF s1]
  show ?thesis
  proof (cases handle)
    case None
    with assms s1 have "s' = s1\<lparr>gePlugin := None\<rparr>"
      by (simp add: setGEPlugin_def)
    with d None show ?thesis by simp
  next
    case (Some ge)
    let ?s3 = "s1\<lparr>gePlugin := Some ge, altitudeMode := ALTITUDE_RELATIVE_TO_GROUND ge\<rparr>"
    show ?thesis
    proof (cases "active s1")
      case False
      with assms s1 Some have "s' = ?s3"
        by (simp add: setGEPlugin_def Let_def)
      with d Some False show ?thesis by simp
    next
      case True
      with assms s1 Some obtain s4 where
        s4: "connectGEPlugin ?s3 = Inr s4" and u: "update lib s4 = Inr s'"
        by (auto simp: setGEPlugin_def Let_def split: sum.splits)
      from flag_connect [OF s4] flag_update [OF u] d Some True show ?thesis
        by simp
    qed
  qed
qed

lemma flag_activate:
  assumes "activate lib s = Inr (b, s')"
  shows "gePluginFlyToSpeedSet s' =
           (gePluginFlyToSpeedSet s \<and> \<not> (\<not> active s \<and> gePlugin s \<noteq> None)) \<and>
         map_option (\<lambda>ge. (setFlyToSpeed_calls ge, SPEED_TELEPORT ge)) (gePlugin s') =
         map_option (\<lambda>ge. (setFlyToSpeed_calls ge, SPEED_TELEPORT ge)) (gePlugin s)"
proof (cases "\<not> active s \<and> gePlugin s \<noteq> None")
  case False
  with assms have "s' = s \<or> s' = s\<lparr>active := True\<rparr>"
    by (auto simp: activate_def Control_activate_def split: if_splits)
  with False show ?thesis by auto
next
  case True
  with assms obtain m l d s3 where
    s3: "connectGEPlugin (s\<lparr>active := True, map' := Some (addControl (addLayer m)),
            dragFeatureControl := Some (d\<lparr>drag_active := True\<rparr>)\<rparr>) = Inr s3" and
    u: "update lib s3 = Inr s'"
    by (auto simp: activate_def Control_activate_def Let_def split: option.splits sum.splits)
  from flag_connect [OF s3] flag_update [OF u] True show ?thesis
    by simp
qed

lemma flag_deactivate:
  assumes "deactivate s = Inr (b, s')"
  shows "gePluginFlyToSpeedSet s' = gePluginFlyToSpeedSet s \<and>
         map_option (\<lambda>ge. (setFlyToSpeed_calls ge, SPEED_TELEPORT ge)) (gePlugin s') =
         map_option (\<lambda>ge. (setFlyToSpeed_calls ge, SPEED_TELEPORT ge)) (gePlugin s)"
proof (cases "active s")
  case False
  with assms show ?thesis by (simp add: deactivate_def Control_deactivate_def)
next
  case True
  with assms obtain s2 d m where
    s2: "disconnectGEPlugin (s\<lparr>active := False\<rparr>) = Inr s2" and
    s': "s' = s2\<lparr>dragFeatureControl := Some (d\<lparr>drag_active := False\<rparr>),
                 map' := Some (removeLayer (removeControl m))\<rparr>"
    by (auto simp: deactivate_def Control_deactivate_def split: option.splits sum.splits)
  from flag_disconnect [OF s2] s' show ?thesis
    by simp
qed

lemma flag_onDrag:
  "onDrag lib feature pixel s = Inr s' \<Longrightarrow>
   gePluginFlyToSpeedSet s' = gePluginFlyToSpeedSet s \<and>
   map_option (\<lambda>ge. (setFlyToSpeed_calls ge, SPEED_TELEPORT ge)) (gePlugin s') =
   map_option (\<lambda>ge. (setFlyToSpeed_calls ge, SPEED_TELEPORT ge)) (gePlugin s)"
  by (auto simp: onDrag_def Let_def setAbstractView_def split: option.splits if_splits)

lemma flag_onStart:
  assumes "onStart lib feature s = Inr s'"
  shows "gePluginFlyToSpeedSet s'"
    and "map_option SPEED_TELEPORT (gePlugin s') = map_option SPEED_TELEPORT (gePlugin s)"
    and "\<exists>ge. gePlugin s = Some ge \<and>
           speed_calls s' =
             speed_calls s @ (if gePluginFlyToSpeedSet s then [] else [SPEED_TELEPORT ge])"
  using assms
  by (auto simp: onStart_def Let_def speed_calls_def split: option.splits if_splits)

lemma flag_draw:
  "gePluginFlyToSpeedSet (draw s) = gePluginFlyToSpeedSet s \<and> gePlugin (draw s) = gePlugin s"
  by (simp add: draw_def Let_def)

lemma perform_Activate:
  "perform lib Activate s = Inr s' \<Longrightarrow> \<exists>b. activate lib s = Inr (b, s')"
  by (cases "activate lib s") (auto simp: prod_eq_iff)

lemma perform_Deactivate:
  "perform lib Deactivate s = Inr s' \<Longrightarrow> \<exists>b. deactivate s = Inr (b, s')"
  by (cases "deactivate s") (auto simp: prod_eq_iff)

text \<open>What one operation does to the flag, in any state.\<close>

lemma step_flag:
  assumes "perform lib opn s = Inr s'"
  shows "gePluginFlyToSpeedSet s' =
           (if connects opn s then False else gePluginFlyToSpeedSet s \<or> starts_drag opn)"
proof (cases opn)
  case Draw
  with assms have "s' = draw s" by simp
  with Draw flag_draw [of s] show ?thesis by simp
next
  case (SetGEPlugin handle)
  with assms have "setGEPlugin lib handle s = Inr s'" by simp
  from flag_setGEPlugin [OF this] SetGEPlugin show ?thesis by auto
next
  case Activate
  with assms perform_Activate obtain b where "activate lib s = Inr (b, s')" by blast
  from flag_activate [OF this] Activate show ?thesis by auto
next
  case Deactivate
  with assms perform_Deactivate obtain b where "deactivate s = Inr (b, s')" by blast
  from flag_deactivate [OF this] Deactivate show ?thesis by simp
next
  case (OnDrag feature pixel)
  with assms have "onDrag lib feature pixel s = Inr s'" by simp
  from flag_onDrag [OF this] OnDrag show ?thesis by simp
next
  case Update
  with assms have "update lib s = Inr s'" by simp
  from flag_update [OF this] Update show ?thesis by simp
next
  case (OnStart feature)
  with assms have "onStart lib feature s = Inr s'" by simp
  from flag_onStart(1) [OF this] OnStart show ?thesis by simp
qed

text \<open>What one operation within a connection does to the calls the plugin received.\<close>

lemma step_calls:
  assumes "perform lib opn s = Inr s'" and "\<not> connects opn s" and "\<not> replaces_plugin opn"
  shows "map_option SPEED_TELEPORT (gePlugin s') = map_option SPEED_TELEPORT (gePlugin s)"
    and "starts_drag opn \<and> \<not> gePluginFlyToSpeedSet s \<longrightarrow>
           (\<exists>ge. gePlugin s = Some ge \<and> speed_calls s' = speed_calls s @ [SPEED_TELEPORT ge])"
    and "\<not> (starts_drag opn \<and> \<not> gePluginFlyToSpeedSet s) \<longrightarrow> speed_calls s' = speed_calls s"
proof -
  have "map_option SPEED_TELEPORT (gePlugin s') = map_option SPEED_TELEPORT (gePlugin s) \<and>
    (starts_drag opn \<and> \<not> gePluginFlyToSpeedSet s \<longrightarrow>
       (\<exists>ge. gePlugin s = Some ge \<and> speed_calls s' = speed_calls s @ [SPEED_TELEPORT ge])) \<and>
    (\<not> (starts_drag opn \<and> \<not> gePluginFlyToSpeedSet s) \<longrightarrow> speed_calls s' = speed_calls s)"
  proof (cases opn)
    case Draw
    with assms(1) have "s' = draw s" by simp
    with Draw flag_draw [of s] show ?thesis by (simp add: speed_calls_def)
  next
    case (SetGEPlugin handle)
    with assms(3) show ?thesis by simp
  next
    case Activate
    with assms(1) perform_Activate obtain b where "activate lib s = Inr (b, s')" by blast
    from flag_activate [OF this] speed_calls_eq [of s' s] Activate show ?thesis by simp
  next
    case Deactivate
    with assms(1) perform_Deactivate obtain b where "deactivate s = Inr (b, s')" by blast
    from flag_deactivate [OF this] speed_calls_eq [of s' s] Deactivate show ?thesis by simp
  next
    case (OnDrag feature pixel)
    with assms(1) have "onDrag lib feature pixel s = Inr s'" by simp
    from flag_onDrag [OF this] speed_calls_eq [of s' s] OnDrag show ?thesis by simp
  next
    case Update
    with assms(1) have "update lib s = Inr s'" by simp
    from flag_update [OF this] Update show ?thesis by (simp add: speed_calls_def)
  next
    case (OnStart feature)
    with assms(1) have "onStart lib feature s = Inr s'" by simp
    from flag_onStart(2,3) [OF this] OnStart show ?thesis by auto
  qed
  then show "map_option SPEED_TELEPORT (gePlugin s') = map_option SPEED_TELEPORT (gePlugin s)"
    and "starts_drag opn \<and> \<not> gePluginFlyToSpeedSet s \<longrightarrow>
           (\<exists>ge. gePlugin s = Some ge \<and> speed_calls s' = speed_calls s @ [SPEED_TELEPORT ge])"
    and "\<not> (starts_drag opn \<and> \<not> gePluginFlyToSpeedSet s) \<longrightarrow> speed_calls s' = speed_calls s"
    by simp_all
qed

lemma run_calls:
  assumes "run lib opns s = Inr s'" and "same_connection lib opns s"
  shows "map_option SPEED_TELEPORT (gePlugin s') = map_option SPEED_TELEPORT (gePlugin s) \<and>
    (gePluginFlyToSpeedSet s \<longrightarrow> gePluginFlyToSpeedSet s' \<and> speed_calls s' = speed_calls s) \<and>
    (\<not> gePluginFlyToSpeedSet s \<longrightarrow>
       (\<not> gePluginFlyToSpeedSet s' \<and> speed_calls s' = speed_calls s) \<or>
       (gePluginFlyToSpeedSet s' \<and>
        (\<exists>ge. gePlugin s = Some ge \<and> speed_calls s' = speed_calls s @ [SPEED_TELEPORT ge])))"
  using assms
proof (induction opns arbitrary: s)
  case Nil
  then show ?case by simp
next
  case (Cons opn opns)
  from Cons.prems(1) obtain s1 where
    p: "perform lib opn s = Inr s1" and r: "run lib opns s1 = Inr s'"
    by (cases "perform lib opn s") simp_all
  from Cons.prems(2) p have
    nc: "\<not> connects opn s" and nr: "\<not> replaces_plugin opn" and
    sc: "same_connection lib opns s1"
    by simp_all
  note ih = Cons.IH [OF r sc]
  note f = step_flag [OF p]
  note c = step_calls [OF p nc nr]
  show ?case
  proof (cases "gePluginFlyToSpeedSet s")
    case True
    with f nc have "gePluginFlyToSpeedSet s1" by simp
    with ih c True show ?thesis by simp
  next
    case False
    show ?thesis
    proof (cases "starts_drag opn")
      case True
      with f nc have f1: "gePluginFlyToSpeedSet s1" by simp
      from c(2) True False obtain ge where
        "gePlugin s = Some ge" "speed_calls s1 = speed_calls s @ [SPEED_TELEPORT ge]"
        by blast
      with ih f1 c(1) False show ?thesis by simp
    next
      case nd: False
      with f nc False have f1: "\<not> gePluginFlyToSpeedSet s1" by simp
      from c(3) nd have c1: "speed_calls s1 = speed_calls s" by simp
      from ih f1 have
        "(\<not> gePluginFlyToSpeedSet s' \<and> speed_calls s' = speed_calls s1) \<or>
         (gePluginFlyToSpeedSet s' \<and>
          (\<exists>ge. gePlugin s1 = Some ge \<and> speed_calls s' = speed_calls s1 @ [SPEED_TELEPORT ge]))"
        by simp
      moreover have "\<And>ge1. gePlugin s1 = Some ge1 \<Longrightarrow>
          \<exists>ge. gePlugin s = Some ge \<and> SPEED_TELEPORT ge = SPEED_TELEPORT ge1"
        using c(1) by (cases "gePlugin s") auto
      ultimately show ?thesis
        using ih c(1) c1 False by auto
    qed
  qed
qed

text \<open>
  Claim C7, as stated, fails.  In the example session the first drag has set the fly-to
  speed and the flag; the control is deactivated and activated again, which sets the flag
  back to false, and the next drag calls the speed setter of the plugin a second time.
\<close>

theorem flyToSpeedSet_reset_counterexample:
  "reachable ex_options ex_dragging \<and> gePluginFlyToSpeedSet ex_dragging \<and>
   deactivate ex_dragging = Inr (True, ex_stopped) \<and>
   activate ex_lib ex_stopped = Inr (True, ex_again) \<and>
   \<not> gePluginFlyToSpeedSet ex_again \<and>
   onStart ex_lib CameraFeature ex_again = Inr ex_dragging_again \<and>
   map_option setFlyToSpeed_calls (gePlugin ex_dragging_again) = Some [5, 5]"
  using ex_dragging_reachable ex_deactivate ex_activate_again ex_onStart_again
  by (simp add: ex_defs)

text \<open>
  Claim C7, amended.  The flag is set to true by every drag start and set back to false
  exactly by the operations that connect the control to the plugin
  (\<^verbatim>\<open>connectGEPlugin\<close>): an \<^verbatim>\<open>activate\<close> of an inactive control that has a
  plugin, and a \<^verbatim>\<open>setGEPlugin\<close> with a plugin on an active control; every other
  operation leaves it as it is.  Within one connection, that is through any run of
  operations none of which connects the control or replaces the plugin, the speed setter
  is called at most once: not at all when the flag is true at the start of the run, and
  otherwise either not at all, the flag staying false, or once, with the teleport speed
  of the plugin, the flag being true from then on.
\<close>

theorem flyToSpeedSet_once_per_connection:
  assumes "run lib opns s = Inr s'" and "same_connection lib opns s"
  shows "(gePluginFlyToSpeedSet s \<longrightarrow>
            gePluginFlyToSpeedSet s' \<and> speed_calls s' = speed_calls s) \<and>
         (\<not> gePluginFlyToSpeedSet s \<longrightarrow>
            (\<not> gePluginFlyToSpeedSet s' \<and> speed_calls s' = speed_calls s) \<or>
            (gePluginFlyToSpeedSet s' \<and>
             (\<exists>ge. gePlugin s = Some ge \<and>
                    speed_calls s' = speed_calls s @ [SPEED_TELEPORT ge]))) \<and>
         (\<forall>opn t. perform lib opn s' = Inr t \<longrightarrow>
            gePluginFlyToSpeedSet t =
              (if connects opn s' then False
               else gePluginFlyToSpeedSet s' \<or> starts_drag opn))"
  using run_calls [OF assms] step_flag [of lib _ s']
  by blast

theorem flyToSpeedSet_once_per_connection_witness:
  "\<not> gePluginFlyToSpeedSet ex_active \<and>
   same_connection ex_lib
     [OnStart CameraFeature, OnDrag CameraFeature \<lparr>pixel_x = 30, pixel_y = - 470\<rparr>,
      OnStart LookAtFeature, Update] ex_active \<and>
   (\<exists>t. run ex_lib
     [OnStart CameraFeature, OnDrag CameraFeature \<lparr>pixel_x = 30, pixel_y = - 470\<rparr>,
      OnStart LookAtFeature, Update] ex_active = Inr t \<and>
      gePluginFlyToSpeedSet t \<and> speed_calls t = speed_calls ex_active @ [5]) \<and>
   connects Activate ex_stopped \<and> perform ex_lib Activate ex_stopped = Inr ex_again \<and>
   \<not> gePluginFlyToSpeedSet ex_again"
proof -
  let ?opns = "[OnStart CameraFeature, OnDrag CameraFeature \<lparr>pixel_x = 30, pixel_y = - 470\<rparr>,
      OnStart LookAtFeature, Update]"
  have "\<exists>t. run ex_lib ?opns ex_active = Inr t \<and> gePluginFlyToSpeedSet t"
    by (simp add: method_defs ex_defs ex_arith)
  then obtain t where t: "run ex_lib ?opns ex_active = Inr t" and ft: "gePluginFlyToSpeedSet t"
    by blast
  have c: "same_connection ex_lib ?opns ex_active"
    by (simp add: method_defs ex_defs ex_arith)
  have f: "\<not> gePluginFlyToSpeedSet ex_active"
    by (simp add: ex_defs)
  have g: "gePlugin ex_active = Some (ex_plugin\<lparr>frameend_listeners := 1\<rparr>)"
    by (simp add: ex_defs)
  have v: "SPEED_TELEPORT (ex_plugin\<lparr>frameend_listeners := 1\<rparr>) = 5"
    by (simp add: ex_defs)
  have a: "perform ex_lib Activate ex_stopped = Inr ex_again"
    by (simp add: ex_activate_again)
  have k: "connects Activate ex_stopped"
    by (simp add: ex_defs)
  have e: "run ex_lib [] ex_stopped = Inr ex_stopped" "same_connection ex_lib [] ex_stopped"
    by simp_all
  from flyToSpeedSet_once_per_connection [OF t c] f ft g v
  have "speed_calls t = speed_calls ex_active @ [5]"
    by auto
  moreover from flyToSpeedSet_once_per_connection
    [OF e, THEN conjunct2, THEN conjunct2, rule_format, OF a] k
  have "\<not> gePluginFlyToSpeedSet ex_again"
    by (simp only: if_True simp_thms)
  ultimately show ?thesis
    using f c t ft a k by blast
qed

subsection \<open>Activation and deactivation\<close>

text \<open>
  Claim C8.  Without a plugin, \<^verbatim>\<open>activate\<close> returns false and leaves the control as
  it was but for the \<open>active\<close> flag of the base class: the map has no new layer and
  no new control, the layer no features, and no listener is bound.
\<close>

theorem activate_without_gePlugin:
  assumes "gePlugin s = None"
  shows "activate lib s = Inr (False, s\<lparr>active := True\<rparr>)"
  using assms by (simp add: activate_def Control_activate_def)

theorem activate_without_gePlugin_witness:
  "gePlugin ex_drawn = None \<and>
   activate ex_lib ex_drawn = Inr (False, ex_drawn\<lparr>active := True\<rparr>) \<and>
   map' (ex_drawn\<lparr>active := True\<rparr>) = Some ex_map \<and>
   map_option features (layer (ex_drawn\<lparr>active := True\<rparr>)) = Some [] \<and>
   \<not> frameendCallback (ex_drawn\<lparr>active := True\<rparr>)"
proof -
  have g: "gePlugin ex_drawn = None"
    by (simp add: ex_defs)
  from activate_without_gePlugin [OF g, of ex_lib] g show ?thesis
    by (simp add: ex_defs)
qed

text \<open>
  Claim C9.  \<^verbatim>\<open>activate\<close> on an active control and \<^verbatim>\<open>deactivate\<close> on an
  inactive control return false, without an error, and leave the control as it was.
\<close>

theorem activate_deactivate_guarded:
  "(active s \<longrightarrow> activate lib s = Inr (False, s)) \<and>
   (\<not> active s \<longrightarrow> deactivate s = Inr (False, s))"
  by (simp add: activate_def deactivate_def Control_activate_def Control_deactivate_def)

theorem activate_deactivate_guarded_witness:
  "active ex_active \<and> activate ex_lib ex_active = Inr (False, ex_active) \<and>
   \<not> active ex_stopped \<and> deactivate ex_stopped = Inr (False, ex_stopped)"
proof -
  have a: "active ex_active" and d: "\<not> active ex_stopped"
    by (simp_all add: ex_defs)
  from activate_deactivate_guarded [of ex_active ex_lib]
    activate_deactivate_guarded [of ex_stopped ex_lib] a d
  show ?thesis by simp
qed

lemma update_needed_total:
  assumes "cameraFeature s = Some cf" and "lookAtFeature s = Some lf"
    and "featuresAdded s \<longrightarrow> geometry cf \<noteq> None \<and> geometry lf \<noteq> None"
  shows "\<exists>b. update_needed nc nl prev s = Inr b"
  using assms by (auto simp: update_needed_def)

lemma update_features_total:
  assumes "layer s = Some l" and "cameraFeature s = Some cf" and "lookAtFeature s = Some lf"
    and "lineFeature s = Some lnf"
  shows "\<exists>s'. update_features lib c v nc nl s = Inr s'"
  using assms by (simp add: update_features_def Let_def)

lemma update_total:
  assumes "drawn s" and "gePlugin s = Some ge"
  shows "\<exists>s'. update lib s = Inr s'"
proof -
  from assms(1) obtain m l cf lf lnf where
    m: "map' s = Some m" and l: "layer s = Some l" and cf: "cameraFeature s = Some cf" and
    lf: "lookAtFeature s = Some lf" and lnf: "lineFeature s = Some lnf" and
    g: "featuresAdded s \<longrightarrow> geometry cf \<noteq> None \<and> geometry lf \<noteq> None"
    by (auto simp: drawn_def)
  let ?s1 = "set_gimballLock ge s"
  have "\<exists>b. update_needed (newCameraGeometry lib s m ge) (newLookAtGeometry lib s m ge)
          (gimballLock s) ?s1 = Inr b"
    using cf lf g by (intro update_needed_total [where cf = cf and lf = lf])
      (simp_all add: set_gimballLock_def)
  then obtain b where b: "update_needed (newCameraGeometry lib s m ge)
      (newLookAtGeometry lib s m ge) (gimballLock s) ?s1 = Inr b" ..
  have "\<exists>s'. update_features lib (view_camera ge) (view_lookAt ge)
      (newCameraGeometry lib s m ge) (newLookAtGeometry lib s m ge) ?s1 = Inr s'"
    using l cf lf lnf by (intro update_features_total [where l = l and cf = cf and lf = lf and lnf = lnf])
      (simp_all add: set_gimballLock_def)
  with b m assms(2) show ?thesis
    by (cases b) (auto simp: update_def)
qed

lemma update_featuresAdded: "update lib s = Inr s' \<Longrightarrow> featuresAdded s'"
  by (drule update_Inr) (auto dest: update_features_fields update_needed_False simp: set_gimballLock_def)

lemma update_needed_FalseD:
  assumes "update_needed nc nl prev s = Inr False"
  shows "\<exists>cf cg lf lg. cameraFeature s = Some cf \<and> geometry cf = Some cg \<and>
           lookAtFeature s = Some lf \<and> geometry lf = Some lg \<and>
           point_x nc = point_x cg \<and> point_y nc = point_y cg \<and>
           point_x nl = point_x lg \<and> point_y nl = point_y lg"
  using assms by (auto simp: update_needed_def split: if_splits option.splits)

lemma update_features_geometry:
  assumes "update_features lib c v nc nl s = Inr s'"
  shows "\<exists>cf lf. cameraFeature s' = Some cf \<and> geometry cf = Some nc \<and>
           lookAtFeature s' = Some lf \<and> geometry lf = Some nl"
    and "map' s' = map' s" and "geProjection s' = geProjection s"
proof -
  from update_features_Inr [OF assms] obtain l cf lf lnf where
    "layer s = Some l" "cameraFeature s = Some cf" "lookAtFeature s = Some lf"
    "lineFeature s = Some lnf"
    by blast
  with assms show "\<exists>cf lf. cameraFeature s' = Some cf \<and> geometry cf = Some nc \<and>
           lookAtFeature s' = Some lf \<and> geometry lf = Some nl"
    and "map' s' = map' s" and "geProjection s' = geProjection s"
    by (auto simp: update_features_def Let_def split: if_splits)
qed

lemma update_markers:
  assumes "update lib s = Inr s1" and "map' s = Some m" and "gePlugin s = Some ge"
  shows "map' s1 = Some m \<and> geProjection s1 = geProjection s \<and>
    (\<exists>cf cg lf lg. cameraFeature s1 = Some cf \<and> geometry cf = Some cg \<and>
           lookAtFeature s1 = Some lf \<and> geometry lf = Some lg \<and>
           point_x (newCameraGeometry lib s m ge) = point_x cg \<and>
           point_y (newCameraGeometry lib s m ge) = point_y cg \<and>
           point_x (newLookAtGeometry lib s m ge) = point_x lg \<and>
           point_y (newLookAtGeometry lib s m ge) = point_y lg)"
proof -
  from update_Inr [OF assms(1)] assms(2,3) have
    "(update_needed (newCameraGeometry lib s m ge) (newLookAtGeometry lib s m ge)
          (gimballLock s) (set_gimballLock ge s) = Inr False \<and> s1 = set_gimballLock ge s) \<or>
     (update_features lib (view_camera ge) (view_lookAt ge)
        (newCameraGeometry lib s m ge) (newLookAtGeometry lib s m ge)
        (set_gimballLock ge s) = Inr s1)"
    by auto
  then show ?thesis
  proof
    assume a: "update_needed (newCameraGeometry lib s m ge) (newLookAtGeometry lib s m ge)
        (gimballLock s) (set_gimballLock ge s) = Inr False \<and> s1 = set_gimballLock ge s"
    then have "update_needed (newCameraGeometry lib s m ge) (newLookAtGeometry lib s m ge)
        (gimballLock s) s1 = Inr False"
      by simp
    from update_needed_FalseD [OF this] a assms(2) show ?thesis
      by (simp add: set_gimballLock_def)
  next
    assume "update_features lib (view_camera ge) (view_lookAt ge)
        (newCameraGeometry lib s m ge) (newLookAtGeometry lib s m ge)
        (set_gimballLock ge s) = Inr s1"
    from update_features_geometry [OF this] assms(2) show ?thesis
      by (auto simp: set_gimballLock_def)
  qed
qed

lemma update_layer_features:
  assumes "update lib s = Inr s'" and "layer_inv s"
  shows "map_option features (layer s') =
           Some (if gimballLock s' then [CameraFeature]
                 else [LineFeature, LookAtFeature, CameraFeature])"
proof -
  from update_layer_inv [OF assms]
  have "layer_inv s'" and "featuresAdded s'"
    by simp_all
  then show ?thesis
    by (cases "layer s'") (simp_all add: layer_inv_def shown_features_def)
qed

text \<open>
  Claim C10.  On an inactive control without a plugin, \<^verbatim>\<open>activate\<close> returns false
  and yet leaves the control active, since the base class activates it before the plugin
  is looked at.  On the control so left, with the map, the layer and the features in
  place, \<^verbatim>\<open>setGEPlugin\<close> with a plugin registers the \<^verbatim>\<open>frameend\<close> listener and
  returns what \<^verbatim>\<open>update\<close> returns on the connected control: the features are
  added, the gimbal lock flag tells whether the tilt of the camera is below the
  threshold, the layer holds the camera marker alone or the line and the two markers
  accordingly, and the two markers sit at the positions of the camera and of the
  look-at point of the plugin, transformed to the projection of the map.  On the
  result \<^verbatim>\<open>activate\<close> returns false again, the plugin being there.
\<close>

theorem failed_activate_leaves_active:
  assumes "reachable options s" and "\<not> active s" and "gePlugin s = None"
    and "\<not> frameendCallback s" and "drawn s" and "map' s = Some m"
  shows "\<exists>s2 cf cg lf lg.
           activate lib s = Inr (False, s\<lparr>active := True\<rparr>) \<and>
           setGEPlugin lib (Some ge) (s\<lparr>active := True\<rparr>) = Inr s2 \<and>
           update lib
             (s\<lparr>active := True,
                altitudeMode := ALTITUDE_RELATIVE_TO_GROUND ge,
                frameendCallback := True,
                gePlugin := Some (ge\<lparr>frameend_listeners := frameend_listeners ge + 1\<rparr>),
                gePluginFlyToSpeedSet := False\<rparr>) = Inr s2 \<and>
           gePlugin s2 = Some (ge\<lparr>frameend_listeners := frameend_listeners ge + 1\<rparr>) \<and>
           frameendCallback s2 \<and> featuresAdded s2 \<and>
           gimballLock s2 = (camera_tilt (view_camera ge) < gimballLockThreshold s) \<and>
           map_option features (layer s2) =
             Some (if gimballLock s2 then [CameraFeature]
                   else [LineFeature, LookAtFeature, CameraFeature]) \<and>
           cameraFeature s2 = Some cf \<and> geometry cf = Some cg \<and>
           (point_x cg, point_y cg) =
             Projection_transform lib (geProjection s) (projection m)
               (camera_longitude (view_camera ge), camera_latitude (view_camera ge)) \<and>
           lookAtFeature s2 = Some lf \<and> geometry lf = Some lg \<and>
           (point_x lg, point_y lg) =
             Projection_transform lib (geProjection s) (projection m)
               (longitude (view_lookAt ge), latitude (view_lookAt ge)) \<and>
           activate lib s2 = Inr (False, s2)"
proof -
  let ?ge = "ge\<lparr>frameend_listeners := frameend_listeners ge + 1\<rparr>"
  let ?c = "s\<lparr>active := True,
              altitudeMode := ALTITUDE_RELATIVE_TO_GROUND ge,
              frameendCallback := True,
              gePlugin := Some ?ge,
              gePluginFlyToSpeedSet := False\<rparr>"
  have a: "activate lib s = Inr (False, s\<lparr>active := True\<rparr>)"
    using assms(2,3) by (simp add: activate_def Control_activate_def)
  have "drawn ?c"
    using assms(5) by (simp add: drawn_def)
  then obtain s2 where u: "update lib ?c = Inr s2"
    using update_total [of ?c _ lib] by auto
  have st: "setGEPlugin lib (Some ge) (s\<lparr>active := True\<rparr>) = update lib ?c"
    using assms(4) by (simp add: setGEPlugin_def disconnectGEPlugin_def connectGEPlugin_def)
  have gc: "gePlugin ?c = Some ?ge" and mc: "map' ?c = Some m"
    using assms(6) by simp_all
  from flag_update [OF u] have f: "gePlugin s2 = Some ?ge" "active s2" "frameendCallback s2"
    by simp_all
  from update_featuresAdded [OF u] have fa: "featuresAdded s2" by simp
  from update_gimballLock [OF u gc]
  have lock: "gimballLock s2 = (camera_tilt (view_camera ge) < gimballLockThreshold s)"
    by simp
  from reachable_inv [OF assms(1)] have "layer_inv ?c"
    by (simp add: control_inv_def layer_inv_def split: option.splits)
  from update_layer_features [OF u this]
  have lay: "map_option features (layer s2) =
      Some (if gimballLock s2 then [CameraFeature]
            else [LineFeature, LookAtFeature, CameraFeature])" .
  from update_markers [OF u mc gc] obtain cf cg lf lg where
    g: "cameraFeature s2 = Some cf" "geometry cf = Some cg"
       "lookAtFeature s2 = Some lf" "geometry lf = Some lg" and
    xy: "point_x (newCameraGeometry lib ?c m ?ge) = point_x cg"
        "point_y (newCameraGeometry lib ?c m ?ge) = point_y cg"
        "point_x (newLookAtGeometry lib ?c m ?ge) = point_x lg"
        "point_y (newLookAtGeometry lib ?c m ?ge) = point_y lg"
    by blast
  from xy(1,2) have pc: "(point_x cg, point_y cg) =
      Projection_transform lib (geProjection s) (projection m)
        (camera_longitude (view_camera ge), camera_latitude (view_camera ge))"
    by (simp add: newCameraGeometry_def transform_def Let_def prod_eq_iff)
  from xy(3,4) have pl: "(point_x lg, point_y lg) =
      Projection_transform lib (geProjection s) (projection m)
        (longitude (view_lookAt ge), latitude (view_lookAt ge))"
    by (simp add: newLookAtGeometry_def transform_def Let_def prod_eq_iff)
  have "activate lib s2 = Inr (False, s2)"
    using f(2) by (simp add: activate_def Control_activate_def)
  with a st u f fa lock lay g pc pl show ?thesis
    by (intro exI [of _ s2] exI [of _ cf] exI [of _ cg] exI [of _ lf] exI [of _ lg])
      (simp only: simp_thms)
qed

theorem failed_activate_leaves_active_witness:
  "reachable ex_options ex_drawn \<and> \<not> active ex_drawn \<and> gePlugin ex_drawn = None \<and>
   \<not> frameendCallback ex_drawn \<and> drawn ex_drawn \<and> map' ex_drawn = Some ex_map \<and>
   activate ex_lib ex_drawn = Inr (False, ex_drawn\<lparr>active := True\<rparr>) \<and>
   active (ex_drawn\<lparr>active := True\<rparr>) \<and>
   (\<exists>s2. setGEPlugin ex_lib (Some ex_plugin) (ex_drawn\<lparr>active := True\<rparr>) = Inr s2 \<and>
      map_option frameend_listeners (gePlugin s2) = Some 1 \<and>
      featuresAdded s2 \<and> \<not> gimballLock s2 \<and>
      map_option features (layer s2) = Some [LineFeature, LookAtFeature, CameraFeature] \<and>
      Option.bind (cameraFeature s2) geometry \<noteq> None \<and>
      map_option (\<lambda>g. (point_x g, point_y g)) (Option.bind (cameraFeature s2) geometry) =
        Some (70, 940) \<and>
      map_option (\<lambda>g. (point_x g, point_y g)) (Option.bind (lookAtFeature s2) geometry) =
        Some (80, 940) \<and>
      activate ex_lib s2 = Inr (False, s2))"
proof -
  have h: "reachable ex_options ex_drawn" "\<not> active ex_drawn" "gePlugin ex_drawn = None"
    "\<not> frameendCallback ex_drawn" "drawn ex_drawn" "map' ex_drawn = Some ex_map"
    using ex_drawn_reachable by (simp_all add: ex_defs drawn_def)
  have v: "\<not> camera_tilt (view_camera ex_plugin) < gimballLockThreshold ex_drawn"
    "frameend_listeners ex_plugin + 1 = 1"
    "Projection_transform ex_lib (geProjection ex_drawn) (projection ex_map)
       (camera_longitude (view_camera ex_plugin), camera_latitude (view_camera ex_plugin)) =
     (70, 940)"
    "Projection_transform ex_lib (geProjection ex_drawn) (projection ex_map)
       (longitude (view_lookAt ex_plugin), latitude (view_lookAt ex_plugin)) = (80, 940)"
    by (simp_all add: ex_defs)
  from failed_activate_leaves_active [OF h, of ex_lib ex_plugin] obtain s2 cf cg lf lg where
    r: "activate ex_lib ex_drawn = Inr (False, ex_drawn\<lparr>active := True\<rparr>)"
    "setGEPlugin ex_lib (Some ex_plugin) (ex_drawn\<lparr>active := True\<rparr>) = Inr s2"
    "gePlugin s2 = Some (ex_plugin\<lparr>frameend_listeners := frameend_listeners ex_plugin + 1\<rparr>)"
    "featuresAdded s2"
    "gimballLock s2 =
       (camera_tilt (view_camera ex_plugin) < gimballLockThreshold ex_drawn)"
    "map_option features (layer s2) =
       Some (if gimballLock s2 then [CameraFeature]
             else [LineFeature, LookAtFeature, CameraFeature])"
    "cameraFeature s2 = Some cf" "geometry cf = Some cg"
    "(point_x cg, point_y cg) =
       Projection_transform ex_lib (geProjection ex_drawn) (projection ex_map)
         (camera_longitude (view_camera ex_plugin), camera_latitude (view_camera ex_plugin))"
    "lookAtFeature s2 = Some lf" "geometry lf = Some lg"
    "(point_x lg, point_y lg) =
       Projection_transform ex_lib (geProjection ex_drawn) (projection ex_map)
         (longitude (view_lookAt ex_plugin), latitude (view_lookAt ex_plugin))"
    "activate ex_lib s2 = Inr (False, s2)"
    by blast
  from r(5) v(1) have nl: "\<not> gimballLock s2"
    by simp
  from r(3) v(2) have li: "map_option frameend_listeners (gePlugin s2) = Some 1"
    by simp
  from r(6) nl have fe:
    "map_option features (layer s2) = Some [LineFeature, LookAtFeature, CameraFeature]"
    by simp
  from r(7,8,9) v(3) have cg: "Option.bind (cameraFeature s2) geometry \<noteq> None"
    "map_option (\<lambda>g. (point_x g, point_y g)) (Option.bind (cameraFeature s2) geometry) =
       Some (70, 940)"
    by simp_all
  from r(10,11,12) v(4) have lg:
    "map_option (\<lambda>g. (point_x g, point_y g)) (Option.bind (lookAtFeature s2) geometry) =
       Some (80, 940)"
    by simp
  from h r(1,2,4,13) nl li fe cg lg show ?thesis
    by (intro conjI exI [of _ s2]) simp_all
qed

subsection \<open>Two updates in a row\<close>

text \<open>
  After any \<^verbatim>\<open>update\<close> that returns, a second \<^verbatim>\<open>update\<close> with the plugin, the
  map and the library as they were changes nothing but the counter of object identifiers.
\<close>

lemma new_geometry_coordinates:
  "geProjection s' = geProjection s \<Longrightarrow>
   point_x (newCameraGeometry lib s' m ge) = point_x (newCameraGeometry lib s m ge) \<and>
   point_y (newCameraGeometry lib s' m ge) = point_y (newCameraGeometry lib s m ge) \<and>
   point_x (newLookAtGeometry lib s' m ge) = point_x (newLookAtGeometry lib s m ge) \<and>
   point_y (newLookAtGeometry lib s' m ge) = point_y (newLookAtGeometry lib s m ge)"
  by (simp add: newCameraGeometry_def newLookAtGeometry_def transform_def Let_def)

lemma update_twice:
  assumes "update lib s = Inr s1"
  shows "update lib s1 = Inr (s1\<lparr>nextOid := nextOid s1 + 2\<rparr>)"
proof -
  from update_Inr [OF assms] obtain m ge where
    m: "map' s = Some m" and ge: "gePlugin s = Some ge"
    by blast
  have lock: "gimballLock s1 = (camera_tilt (view_camera ge) < gimballLockThreshold s)"
    using update_gimballLock [OF assms ge] .
  have thr: "gimballLockThreshold s1 = gimballLockThreshold s"
    using update_threshold [OF assms] .
  have fa: "featuresAdded s1"
    using update_featuresAdded [OF assms] .
  have pl: "gePlugin s1 = Some ge"
    using flag_update [OF assms] ge by simp
  from update_markers [OF assms m ge] obtain cf cg lf lg where
    m1: "map' s1 = Some m" and gp: "geProjection s1 = geProjection s" and
    f: "cameraFeature s1 = Some cf" "geometry cf = Some cg"
       "lookAtFeature s1 = Some lf" "geometry lf = Some lg" and
    xy: "point_x (newCameraGeometry lib s m ge) = point_x cg"
        "point_y (newCameraGeometry lib s m ge) = point_y cg"
        "point_x (newLookAtGeometry lib s m ge) = point_x lg"
        "point_y (newLookAtGeometry lib s m ge) = point_y lg"
    by blast
  from new_geometry_coordinates [OF gp, of lib m ge] xy
  have xy1: "point_x (newCameraGeometry lib s1 m ge) = point_x cg"
        "point_y (newCameraGeometry lib s1 m ge) = point_y cg"
        "point_x (newLookAtGeometry lib s1 m ge) = point_x lg"
        "point_y (newLookAtGeometry lib s1 m ge) = point_y lg"
    by simp_all
  have "(camera_tilt (view_camera ge) < gimballLockThreshold s1) = gimballLock s1"
    using lock thr by simp
  from update_no_change [OF fa m1 pl f xy1 this] show ?thesis .
qed

end
